theory Spec2Isabelle
  imports Main
begin

section \<open>Data model\<close>

text \<open>
  Syntax values of \<^verbatim>\<open>hy.models\<close>, as far as \<^verbatim>\<open>hy/macros.py\<close> tells them apart:
  \<^verbatim>\<open>isinstance(x, Symbol)\<close>, \<^verbatim>\<open>isinstance(x, Expression)\<close> and
  \<^verbatim>\<open>isinstance(x, (hy.compiler.Result, AST))\<close>. Every other model object is a
  \<open>Literal\<close>, a Python value that is not a model yet is a \<open>PyValue\<close>, both named by their
  text. Source positions are not part of the model: trees are compared structurally.
\<close>

datatype hy_obj =
    Symbol string
  | Expression "hy_obj list"
  | Literal string
  | PyValue string
  | Result string

text \<open>
  Exceptions. A builtin exception is a class with a message; the classes listed are the ones
  the module catches or raises by name, every other builtin class is \<open>OtherException\<close>.
  The language errors are the kinds of \<^verbatim>\<open>hy.errors\<close> the module imports; any
  other subclass of \<^verbatim>\<open>HyLanguageError\<close> is \<open>HyLanguageError\<close> with its class name.
\<close>

datatype exc_class =
    ValueError | TypeError | ImportError | ModuleNotFoundError | FileNotFoundError
  | AttributeError | AssertionError | RuntimeError | IndexError
  | OtherException string

datatype pyexc =
    PyExc exc_class string
  | HyLanguageError string string
  | HyMacroExpansionError string hy_obj "string option" "string option"
  | HyRequireError string
  | HyTypeError string

text \<open>\<^verbatim>\<open>issubclass(exc_type, HyLanguageError)\<close>\<close>

fun is_language_error :: "pyexc \<Rightarrow> bool" where
  "is_language_error (PyExc c m) = False"
| "is_language_error (HyLanguageError c m) = True"
| "is_language_error (HyMacroExpansionError m t f s) = True"
| "is_language_error (HyRequireError m) = True"
| "is_language_error (HyTypeError m) = True"

text \<open>
  Objects with identity live in a store. A macro definition is a callable, named by its
  identity; a macro table is a Python dict from mangled names to macro definitions, kept
  as an association list in insertion order.
\<close>

type_synonym macro_id = nat
type_synonym mod_id = nat
type_synonym dict_id = nat
type_synonym comp_id = nat
type_synonym macro_table = "(string \<times> macro_id) list"

text \<open>\<^verbatim>\<open>d[k] = v\<close>: an existing key keeps its place, a new key goes last.\<close>

fun dict_set :: "string \<Rightarrow> macro_id \<Rightarrow> macro_table \<Rightarrow> macro_table" where
  "dict_set k v [] = [(k, v)]"
| "dict_set k v (p # ps) = (if fst p = k then (k, v) # ps else p # dict_set k v ps)"

text \<open>
  The \<^verbatim>\<open>__file__\<close> of a module object: the attribute is missing (a built-in module),
  or it is \<^verbatim>\<open>None\<close> (a namespace package), or it is a path.
\<close>

datatype file_attr = No_file | File_None | File string

text \<open>A module object: the attributes the code reads or writes.\<close>

record pymodule =
  mod_name :: string
  mod_file :: file_attr
  hy_macros :: "macro_table option"
  hy_export_macros :: "string list option"

text \<open>
  The compiler object: \<^verbatim>\<open>module\<close>, the \<^verbatim>\<open>['macros']\<close> tables of
  \<^verbatim>\<open>local_state_stack\<close> (outermost first), \<^verbatim>\<open>this\<close>, \<^verbatim>\<open>filename\<close>,
  \<^verbatim>\<open>source\<close>, and the names handed to \<^verbatim>\<open>warn_on_core_shadow\<close>, most recent last.
\<close>

record hy_compiler =
  cmodule :: mod_id
  local_state_stack :: "macro_table list"
  this :: "hy_obj option"
  filename :: "string option"
  source :: "string option"
  core_shadow_calls :: "string list"

record world =
  modules :: "mod_id \<Rightarrow> pymodule"
  dicts :: "dict_id \<Rightarrow> macro_table"
  compilers :: "comp_id \<Rightarrow> hy_compiler"

text \<open>The result of \<^verbatim>\<open>importlib.util.find_spec\<close>, as \<^verbatim>\<open>get_filename\<close> reads it.\<close>

record module_spec =
  source_file_loader :: bool
  loader_filename :: string

text \<open>
  What the module calls and does not define: \<^verbatim>\<open>hy.reader.mangle\<close>, \<^verbatim>\<open>str\<close>
  on a model, \<^verbatim>\<open>hy.models.as_model\<close> and \<^verbatim>\<open>replace_hy_obj\<close>,
  \<^verbatim>\<open>traceback.format_exception_only\<close>, the call of a macro definition (which may
  change the world and may raise), \<^verbatim>\<open>importlib.import_module\<close>,
  \<^verbatim>\<open>importlib.util.find_spec\<close>, \<^verbatim>\<open>os.stat\<close> as the file identity
  \<^verbatim>\<open>os.path.samefile\<close> compares, \<^verbatim>\<open>str\<close> of a module object (from its name and
  file), the
  \<^verbatim>\<open>builtins\<close> module and the module \<^verbatim>\<open>hy.macros\<close> itself.
\<close>

record host =
  mangle :: "string \<Rightarrow> string"
  py_str :: "hy_obj \<Rightarrow> string"
  as_model :: "hy_obj \<Rightarrow> pyexc + hy_obj"
  replace_hy_obj :: "hy_obj \<Rightarrow> hy_obj \<Rightarrow> pyexc + hy_obj"
  format_exception_only :: "pyexc \<Rightarrow> string list"
  run_macro :: "macro_id \<Rightarrow> comp_id option \<Rightarrow> hy_obj list \<Rightarrow> world \<Rightarrow> (pyexc + hy_obj) \<times> world"
  import_module :: "string \<Rightarrow> string option \<Rightarrow> pyexc + mod_id"
  find_spec :: "string \<Rightarrow> (exc_class \<times> string) + module_spec option"
  stat_id :: "string \<Rightarrow> (exc_class \<times> string) + nat"
  module_str :: "string \<Rightarrow> file_attr \<Rightarrow> string"
  builtins :: mod_id
  hy_macros_module :: mod_id

section \<open>Strings\<close>

text \<open>\<^verbatim>\<open>sep.join(xs)\<close>\<close>

fun join :: "string \<Rightarrow> string list \<Rightarrow> string" where
  "join sep [] = []"
| "join sep [x] = x"
| "join sep (x # y # ys) = x @ sep @ join sep (y # ys)"

text \<open>\<^verbatim>\<open>str(x)\<close>: a \<^verbatim>\<open>Symbol\<close> is a \<^verbatim>\<open>str\<close>, its text is its name.\<close>

definition str_of :: "host \<Rightarrow> hy_obj \<Rightarrow> string" where
  "str_of h x = (case x of Symbol s \<Rightarrow> s | _ \<Rightarrow> py_str h x)"

section \<open>Expansion\<close>

text \<open>
  Lines 362-368: the name looked up for the head \<open>fn\<close> of a call form, \<open>None\<close> where
  the loop breaks.
\<close>

definition head_name :: "host \<Rightarrow> hy_obj \<Rightarrow> string option" where
  "head_name h fn =
     (case fn of
        Expression (x # xs) \<Rightarrow>
          (if x = Symbol ''.'' then Some (join ''.'' (map (\<lambda>y. mangle h (str_of h y)) xs))
           else None)
      | Symbol s \<Rightarrow> Some (mangle h s)
      | _ \<Rightarrow> None)"

text \<open>\<^verbatim>\<open>next((d[fn] for d in ds if fn in d), None)\<close>\<close>

fun first_with :: "string \<Rightarrow> macro_table list \<Rightarrow> macro_id option" where
  "first_with fn [] = None"
| "first_with fn (d # ds) =
     (case map_of d fn of Some m \<Rightarrow> Some m | None \<Rightarrow> first_with fn ds)"

text \<open>\<^verbatim>\<open>getattr(mod, "_hy_macros", ())\<close>\<close>

definition module_table :: "world \<Rightarrow> mod_id \<Rightarrow> macro_table" where
  "module_table w m = (case hy_macros (modules w m) of None \<Rightarrow> [] | Some t \<Rightarrow> t)"

text \<open>Lines 371-380: choose the first namespace with the macro.\<close>

definition find_macro :: "host \<Rightarrow> world \<Rightarrow> comp_id option \<Rightarrow> mod_id \<Rightarrow> string \<Rightarrow> macro_id option" where
  "find_macro h w compiler module fn =
     (case (case compiler of
              None \<Rightarrow> None
            | Some c \<Rightarrow> first_with fn (rev (local_state_stack (compilers w c)))) of
        Some m \<Rightarrow> Some m
      | None \<Rightarrow> first_with fn (map (module_table w) [module, builtins h]))"

text \<open>
  \<^verbatim>\<open>MacroExceptions.__exit__\<close> for a raised exception: the exception that leaves the
  \<^verbatim>\<open>with\<close> block. \<open>macro_tree\<close> is the call form the block was entered with.
\<close>

definition MacroExceptions_exit :: "host \<Rightarrow> world \<Rightarrow> hy_obj \<Rightarrow> comp_id option \<Rightarrow> pyexc \<Rightarrow> pyexc" where
  "MacroExceptions_exit h w macro_tree compiler e =
     (if \<not> is_language_error e then
        (case macro_tree of
           Expression (x # xs) \<Rightarrow>
             HyMacroExpansionError
               (''expanding macro '' @ str_of h x @ [CHR 0x0A] @ ''  ''
                  @ join ''  '' (format_exception_only h e))
               macro_tree
               (case compiler of None \<Rightarrow> None | Some c \<Rightarrow> filename (compilers w c))
               (case compiler of None \<Rightarrow> None | Some c \<Rightarrow> source (compilers w c))
         | _ \<Rightarrow> PyExc IndexError [])
      else e)"

definition set_this :: "comp_id \<Rightarrow> hy_obj \<Rightarrow> world \<Rightarrow> world" where
  "set_this c tree w = w\<lparr>compilers := (compilers w)(c := (compilers w c)\<lparr>this := Some tree\<rparr>)\<rparr>"

fun is_result :: "hy_obj \<Rightarrow> bool" where
  "is_result (Result r) = True"
| "is_result x = False"

text \<open>
  One pass through the body of the \<^verbatim>\<open>while\<close> loop (lines 360-391): the loop is left
  by \<^verbatim>\<open>break\<close> or a false condition (\<open>Halt\<close>), by \<^verbatim>\<open>return\<close> (\<open>Return\<close>), by an
  exception (\<open>Raise\<close>), or the body ends with a new tree (\<open>Continue\<close>).
\<close>

datatype step = Halt hy_obj | Return hy_obj | Raise pyexc | Continue hy_obj

text \<open>
  Lines 384-391: the \<^verbatim>\<open>with MacroExceptions(module, tree, compiler)\<close> block, for the
  macro definition \<open>m\<close> found for the call form \<open>tree\<close>.
\<close>

definition invoke_macro ::
  "host \<Rightarrow> macro_id \<Rightarrow> comp_id option \<Rightarrow> bool \<Rightarrow> hy_obj \<Rightarrow> world \<Rightarrow> step \<times> world" where
  "invoke_macro h m compiler result_ok tree w =
     (case run_macro h m compiler (case tree of Expression xs \<Rightarrow> tl xs | _ \<Rightarrow> [])
             (case compiler of None \<Rightarrow> w | Some c \<Rightarrow> set_this c tree w) of
        (Inl e, w') \<Rightarrow> (Raise (MacroExceptions_exit h w' tree compiler e), w')
      | (Inr obj, w') \<Rightarrow>
          (if is_result obj then (Return (if result_ok then obj else tree), w')
           else (case replace_hy_obj h obj tree of
                   Inl e \<Rightarrow> (Raise (MacroExceptions_exit h w' tree compiler e), w')
                 | Inr tree' \<Rightarrow> (Continue tree', w'))))"

definition macroexpand_step ::
  "host \<Rightarrow> mod_id \<Rightarrow> comp_id option \<Rightarrow> bool \<Rightarrow> hy_obj \<Rightarrow> world \<Rightarrow> step \<times> world" where
  "macroexpand_step h module compiler result_ok tree w =
     (case tree of
        Expression (fn0 # args) \<Rightarrow>
          (case head_name h fn0 of
             None \<Rightarrow> (Halt tree, w)
           | Some fn \<Rightarrow>
               (case find_macro h w compiler module fn of
                  None \<Rightarrow> (Halt tree, w)
                | Some m \<Rightarrow> invoke_macro h m compiler result_ok tree w))
      | _ \<Rightarrow> (Halt tree, w))"

text \<open>
  The \<^verbatim>\<open>while\<close> loop. It need not end (a macro may expand to a call of itself):
  not returning is \<open>None\<close>. The loop ends with the tree it fell through with
  (\<open>Halt\<close>), the value it returned (\<open>Return\<close>) or the exception (\<open>Raise\<close>).
\<close>

partial_function (option) macroexpand_loop ::
  "host \<Rightarrow> mod_id \<Rightarrow> comp_id option \<Rightarrow> bool \<Rightarrow> bool \<Rightarrow> hy_obj \<Rightarrow> world \<Rightarrow> (step \<times> world) option" where
  "macroexpand_loop h module compiler once result_ok tree w =
     (case macroexpand_step h module compiler result_ok tree w of
        (Continue tree', w') \<Rightarrow>
          (if once then Some (Halt tree', w')
           else macroexpand_loop h module compiler once result_ok tree' w')
      | (s, w') \<Rightarrow> Some (s, w'))"

text \<open>
  A module argument is a module object or the name of one. A name is a \<^verbatim>\<open>str\<close> object:
  \<open>NameOf m n\<close> is the very object that is the \<^verbatim>\<open>__name__\<close> of module \<open>m\<close> (its
  text is \<open>n\<close>), \<open>ModName n\<close> is a string object of its own. Two names are the same
  object exactly when both are the \<^verbatim>\<open>__name__\<close> of one module.
\<close>

datatype module_ref = ModObj mod_id | ModName string | NameOf mod_id string

text \<open>\<^verbatim>\<open>if not inspect.ismodule(module): module = importlib.import_module(module)\<close>\<close>

definition module_of :: "host \<Rightarrow> module_ref \<Rightarrow> pyexc + mod_id" where
  "module_of h module =
     (case module of
        ModObj m \<Rightarrow> Inr m
      | ModName n \<Rightarrow> import_module h n None
      | NameOf m n \<Rightarrow> import_module h n None)"

text \<open>\<^verbatim>\<open>not compiler or compiler.module == module\<close>\<close>

definition compiler_module_ok :: "world \<Rightarrow> comp_id option \<Rightarrow> mod_id \<Rightarrow> bool" where
  "compiler_module_ok w compiler m =
     (case compiler of None \<Rightarrow> True | Some c \<Rightarrow> cmodule (compilers w c) = m)"

text \<open>
  Lines 360-397: the loop and what follows it. The tree the loop falls through with is
  normalised by \<^verbatim>\<open>as_model\<close>, which may raise; a value returned from inside the loop
  is not.
\<close>

definition macroexpand_body ::
  "host \<Rightarrow> mod_id \<Rightarrow> comp_id option \<Rightarrow> bool \<Rightarrow> bool \<Rightarrow> hy_obj \<Rightarrow> world
     \<Rightarrow> ((pyexc + hy_obj) \<times> world) option" where
  "macroexpand_body h module compiler once result_ok tree w =
     (case macroexpand_loop h module compiler once result_ok tree w of
        None \<Rightarrow> None
      | Some (Halt t, w') \<Rightarrow> Some (as_model h t, w')
      | Some (Return obj, w') \<Rightarrow> Some (Inr obj, w')
      | Some (Raise e, w') \<Rightarrow> Some (Inl e, w')
      | Some (Continue t, w') \<Rightarrow> Some (as_model h t, w'))"

text \<open>
  \<^verbatim>\<open>macroexpand(tree, module, compiler, once, result_ok)\<close>: the value returned or the
  exception raised, with the world it leaves; \<open>None\<close> when it does not return.
\<close>

definition macroexpand ::
  "host \<Rightarrow> hy_obj \<Rightarrow> module_ref \<Rightarrow> comp_id option \<Rightarrow> bool \<Rightarrow> bool \<Rightarrow> world
     \<Rightarrow> ((pyexc + hy_obj) \<times> world) option" where
  "macroexpand h tree module compiler once result_ok w =
     (case module_of h module of
        Inl e \<Rightarrow> Some (Inl e, w)
      | Inr m \<Rightarrow>
          (if \<not> compiler_module_ok w compiler m
           then Some (Inl (PyExc AssertionError []), w)
           else macroexpand_body h m compiler once result_ok tree w))"

text \<open>\<^verbatim>\<open>macroexpand_1\<close>\<close>

definition macroexpand_1 ::
  "host \<Rightarrow> hy_obj \<Rightarrow> module_ref \<Rightarrow> comp_id option \<Rightarrow> world \<Rightarrow> ((pyexc + hy_obj) \<times> world) option" where
  "macroexpand_1 h tree module compiler w = macroexpand h tree module compiler True True w"

section \<open>Requiring macros\<close>

text \<open>
  Truth of a module argument: a module object is true, a name is true unless it is empty.
\<close>

fun truthy :: "module_ref \<Rightarrow> bool" where
  "truthy (ModObj m) = True"
| "truthy (ModName n) = (n \<noteq> [])"
| "truthy (NameOf m n) = (n \<noteq> [])"

text \<open>
  \<^verbatim>\<open>get_filename\<close> inside \<^verbatim>\<open>_same_modules\<close>: \<^verbatim>\<open>inspect.getfile\<close> of a module
  object raises \<^verbatim>\<open>TypeError\<close> when \<^verbatim>\<open>__file__\<close> is missing, \<^verbatim>\<open>None\<close> or empty;
  for a name, the file of the spec's loader when that is a \<^verbatim>\<open>SourceFileLoader\<close>,
  else \<^verbatim>\<open>None\<close>.
\<close>

definition get_filename ::
  "host \<Rightarrow> world \<Rightarrow> module_ref \<Rightarrow> (exc_class \<times> string) + string option" where
  "get_filename h w module =
     (case module of
        ModObj m \<Rightarrow>
          (case mod_file (modules w m) of
             File f \<Rightarrow>
               (if f \<noteq> [] then Inr (Some f)
                else Inl (TypeError,
                          module_str h (mod_name (modules w m)) (mod_file (modules w m))
                            @ '' is a built-in module''))
           | _ \<Rightarrow>
               Inl (TypeError,
                    module_str h (mod_name (modules w m)) (mod_file (modules w m))
                      @ '' is a built-in module''))
      | ModName n \<Rightarrow>
          (case find_spec h n of
             Inl e \<Rightarrow> Inl e
           | Inr None \<Rightarrow> Inr None
           | Inr (Some spec) \<Rightarrow>
               (if source_file_loader spec then Inr (Some (loader_filename spec))
                else Inr None))
      | NameOf m n \<Rightarrow>
          (case find_spec h n of
             Inl e \<Rightarrow> Inl e
           | Inr None \<Rightarrow> Inr None
           | Inr (Some spec) \<Rightarrow>
               (if source_file_loader spec then Inr (Some (loader_filename spec))
                else Inr None)))"

text \<open>
  \<^verbatim>\<open>os.path.samefile\<close>: \<^verbatim>\<open>os.stat\<close> of the first path, then of the second, then
  the comparison of the two identities; \<^verbatim>\<open>os.stat(None)\<close> raises \<^verbatim>\<open>TypeError\<close>.
\<close>

definition samefile ::
  "host \<Rightarrow> string option \<Rightarrow> string option \<Rightarrow> (exc_class \<times> string) + bool" where
  "samefile h f1 f2 =
     (case f1 of
        None \<Rightarrow> Inl (TypeError, ''stat: path should be string, not NoneType'')
      | Some a \<Rightarrow>
          (case stat_id h a of
             Inl e \<Rightarrow> Inl e
           | Inr i \<Rightarrow>
               (case f2 of
                  None \<Rightarrow> Inl (TypeError, ''stat: path should be string, not NoneType'')
                | Some b \<Rightarrow>
                    (case stat_id h b of
                       Inl e \<Rightarrow> Inl e
                     | Inr j \<Rightarrow> Inr (i = j)))))"

text \<open>\<^verbatim>\<open>except (ValueError, TypeError, ImportError, FileNotFoundError)\<close>\<close>

definition caught_by_same_modules :: "exc_class \<Rightarrow> bool" where
  "caught_by_same_modules c =
     (c = ValueError \<or> c = TypeError \<or> c = ImportError \<or> c = ModuleNotFoundError
      \<or> c = FileNotFoundError)"

text \<open>
  \<^verbatim>\<open>_same_modules\<close>. \<^verbatim>\<open>target_module is source_module\<close> is the identity of
  objects: of two module objects, or of two names that are the \<^verbatim>\<open>__name__\<close> object of
  one module. An exception the \<^verbatim>\<open>except\<close> clause does not catch leaves the function.
\<close>

definition same_modules :: "host \<Rightarrow> world \<Rightarrow> module_ref \<Rightarrow> module_ref \<Rightarrow> pyexc + bool" where
  "same_modules h w source_module target_module =
     (if \<not> (truthy source_module \<or> truthy target_module) then Inr False
      else if (case (target_module, source_module) of
                 (ModObj a, ModObj b) \<Rightarrow> a = b
               | (NameOf a n, NameOf b n') \<Rightarrow> a = b
               | _ \<Rightarrow> False) then Inr True
      else
        (case (case get_filename h w source_module of
                 Inl e \<Rightarrow> Inl e
               | Inr f1 \<Rightarrow>
                   (case get_filename h w target_module of
                      Inl e \<Rightarrow> Inl e
                    | Inr f2 \<Rightarrow> samefile h f1 f2)) of
           Inl (c, msg) \<Rightarrow> if caught_by_same_modules c then Inr False else Inl (PyExc c msg)
         | Inr b \<Rightarrow> Inr b))"

text \<open>
  The \<^verbatim>\<open>target\<close> argument of \<^verbatim>\<open>require\<close>: \<^verbatim>\<open>None\<close>, a string, a module object,
  a dict (a macro table of its own, in the store), or a value of another type, named by
  the text of its type.
\<close>

datatype target = TNone | TStr string | TModule mod_id | TDict dict_id | TOther string

text \<open>
  \<^verbatim>\<open>derive_target_module\<close>. The caller's frame is the module whose globals it runs
  in; a namespace is the module it belongs to. The result is \<^verbatim>\<open>target_module\<close>
  (the caller's \<^verbatim>\<open>__name__\<close>, or a module object) and the namespace.
\<close>

definition derive_target_module ::
  "host \<Rightarrow> world \<Rightarrow> target \<Rightarrow> mod_id \<Rightarrow> pyexc + (module_ref \<times> mod_id)" where
  "derive_target_module h w target_module parent_frame =
     (case target_module of
        TNone \<Rightarrow> Inr (NameOf parent_frame (mod_name (modules w parent_frame)), parent_frame)
      | TStr n \<Rightarrow>
          (case import_module h n None of Inl e \<Rightarrow> Inl e | Inr m \<Rightarrow> Inr (ModObj m, m))
      | TModule m \<Rightarrow> Inr (ModObj m, m)
      | TDict d \<Rightarrow>
          Inl (HyTypeError ''`target_module` is not a recognized type: <class 'dict'>'')
      | TOther ty \<Rightarrow>
          Inl (HyTypeError (''`target_module` is not a recognized type: '' @ ty)))"

text \<open>\<^verbatim>\<open>s.split(".")\<close>\<close>

fun split_dot :: "string \<Rightarrow> string list" where
  "split_dot [] = [[]]"
| "split_dot (c # cs) =
     (if c = CHR ''.'' then [] # split_dot cs
      else (case split_dot cs of [] \<Rightarrow> [[c]] | p # ps \<Rightarrow> (c # p) # ps))"

text \<open>
  The \<^verbatim>\<open>while\<close> loop of \<^verbatim>\<open>import_module_from_string\<close>: one level up per leading
  empty component.
\<close>

fun strip_levels :: "string list \<Rightarrow> string list \<Rightarrow> string list \<times> string list" where
  "strip_levels (s # s' # ss) target_dirs =
     (if s = [] \<and> target_dirs \<noteq> [] then strip_levels (s' # ss) (butlast target_dirs)
      else (s # s' # ss, target_dirs))"
| "strip_levels source_dirs target_dirs = (source_dirs, target_dirs)"

text \<open>\<^verbatim>\<open>getattr(package_module, "__name__", package_module)\<close>\<close>

definition package_name :: "world \<Rightarrow> module_ref \<Rightarrow> string" where
  "package_name w package_module =
     (case package_module of
        ModObj m \<Rightarrow> mod_name (modules w m)
      | ModName n \<Rightarrow> n
      | NameOf m n \<Rightarrow> n)"

fun is_ImportError :: "pyexc \<Rightarrow> bool" where
  "is_ImportError (PyExc c msg) = (c = ImportError \<or> c = ModuleNotFoundError)"
| "is_ImportError e = False"

fun exc_message :: "pyexc \<Rightarrow> string" where
  "exc_message (PyExc c msg) = msg"
| "exc_message (HyLanguageError c msg) = msg"
| "exc_message (HyMacroExpansionError msg t f s) = msg"
| "exc_message (HyRequireError msg) = msg"
| "exc_message (HyTypeError msg) = msg"

definition import_module_from_string ::
  "host \<Rightarrow> world \<Rightarrow> string \<Rightarrow> module_ref \<Rightarrow> pyexc + mod_id" where
  "import_module_from_string h w module_name package_module =
     (case import_module h module_name
             (case module_name of
                c # cs \<Rightarrow>
                  (if c = CHR ''.'' then
                     (case strip_levels (split_dot module_name)
                             (split_dot (package_name w package_module)) of
                        (source_dirs, target_dirs) \<Rightarrow>
                          Some (join ''.'' (target_dirs @ butlast source_dirs)))
                   else None)
              | [] \<Rightarrow> None) of
        Inl e \<Rightarrow> if is_ImportError e then Inl (HyRequireError (exc_message e)) else Inl e
      | Inr m \<Rightarrow> Inr m)"

text \<open>\<^verbatim>\<open>target_module_name or target_module or ''\<close>\<close>

definition package_module_of :: "string option \<Rightarrow> module_ref option \<Rightarrow> module_ref" where
  "package_module_of target_module_name target_module =
     (case (case target_module_name of None \<Rightarrow> None | Some n \<Rightarrow> if n \<noteq> [] then Some n else None) of
        Some n \<Rightarrow> ModName n
      | None \<Rightarrow>
          (case target_module of
             None \<Rightarrow> ModName []
           | Some tm \<Rightarrow> if truthy tm then tm else ModName []))"

text \<open>
  Lines 195-211 of \<^verbatim>\<open>require\<close>: an exception, or \<open>None\<close> for
  \<^verbatim>\<open>return False\<close>, or the source module with what \<^verbatim>\<open>derive_target_module\<close>
  gave (nothing for a dict target).
\<close>

definition require_entry ::
  "host \<Rightarrow> world \<Rightarrow> module_ref \<Rightarrow> target \<Rightarrow> string option \<Rightarrow> mod_id
     \<Rightarrow> pyexc + (mod_id \<times> (module_ref \<times> mod_id) option) option" where
  "require_entry h w source_module target target_module_name frame =
     (case (case target of
              TDict d \<Rightarrow> Inr None
            | _ \<Rightarrow>
                (case derive_target_module h w target frame of
                   Inl e \<Rightarrow> Inl e
                 | Inr derived \<Rightarrow> Inr (Some derived))) of
        Inl e \<Rightarrow> Inl e
      | Inr derived \<Rightarrow>
          (case (case derived of
                   None \<Rightarrow> Inr False
                 | Some (target_module, target_namespace) \<Rightarrow>
                     same_modules h w source_module target_module) of
             Inl e \<Rightarrow> Inl e
           | Inr same \<Rightarrow>
               (if same then Inr None
                else
                  (case (case source_module of
                           ModObj m \<Rightarrow> Inr m
                         | ModName n \<Rightarrow>
                             import_module_from_string h w n
                               (package_module_of target_module_name (map_option fst derived))
                         | NameOf m n \<Rightarrow>
                             import_module_from_string h w n
                               (package_module_of target_module_name (map_option fst derived))) of
                     Inl e \<Rightarrow> Inl e
                   | Inr src \<Rightarrow> Inr (Some (src, derived))))))"

text \<open>\<^verbatim>\<open>m.__dict__.setdefault("_hy_macros", {})\<close>\<close>

definition setdefault_hy_macros :: "mod_id \<Rightarrow> world \<Rightarrow> world" where
  "setdefault_hy_macros m w =
     (case hy_macros (modules w m) of
        Some t \<Rightarrow> w
      | None \<Rightarrow> w\<lparr>modules := (modules w)(m := (modules w m)\<lparr>hy_macros := Some []\<rparr>)\<rparr>)"

text \<open>
  \<^verbatim>\<open>target_macros\<close>: the table of a module, a dict, or \<^verbatim>\<open>None\<close> (the target was
  \<^verbatim>\<open>None\<close> and the caller's \<^verbatim>\<open>__name__\<close> is empty), where a store raises.
\<close>

datatype dest = DModule mod_id | DDict dict_id | DNone

definition dest_table :: "world \<Rightarrow> dest \<Rightarrow> macro_table" where
  "dest_table w target_macros =
     (case target_macros of DModule m \<Rightarrow> module_table w m | DDict d \<Rightarrow> dicts w d | DNone \<Rightarrow> [])"

definition dest_set :: "dest \<Rightarrow> string \<Rightarrow> macro_id \<Rightarrow> world \<Rightarrow> pyexc + world" where
  "dest_set target_macros alias v w =
     (case target_macros of
        DModule m \<Rightarrow>
          Inr (w\<lparr>modules := (modules w)
                 (m := (modules w m)\<lparr>hy_macros := Some (dict_set alias v (module_table w m))\<rparr>)\<rparr>)
      | DDict d \<Rightarrow> Inr (w\<lparr>dicts := (dicts w)(d := dict_set alias v (dicts w d))\<rparr>)
      | DNone \<Rightarrow>
          Inl (PyExc TypeError
                 ([CHR 0x27] @ ''NoneType'' @ [CHR 0x27]
                    @ '' object does not support item assignment'')))"

definition warn_on_core_shadow :: "comp_id \<Rightarrow> string \<Rightarrow> world \<Rightarrow> world" where
  "warn_on_core_shadow c name w =
     w\<lparr>compilers := (compilers w)
         (c := (compilers w c)\<lparr>core_shadow_calls := core_shadow_calls (compilers w c) @ [name]\<rparr>)\<rparr>"

text \<open>
  Lines 253-262, the body of the copying loop for one \<^verbatim>\<open>(name, alias)\<close>: the exception
  raised, if any, and the world.
\<close>

definition require_one ::
  "host \<Rightarrow> comp_id option \<Rightarrow> mod_id \<Rightarrow> dest \<Rightarrow> string \<Rightarrow> string \<times> string \<Rightarrow> world
     \<Rightarrow> pyexc option \<times> world" where
  "require_one h compiler src target_macros prefix na w =
     (case (case compiler of
              None \<Rightarrow> w
            | Some c \<Rightarrow> warn_on_core_shadow c (prefix @ snd na) w) of
        w1 \<Rightarrow>
          (case map_of (module_table w1 src) (mangle h (fst na)) of
             Some v \<Rightarrow>
               (case dest_set target_macros (mangle h (prefix @ snd na)) v w1 of
                  Inl e \<Rightarrow> (Some e, w1)
                | Inr w2 \<Rightarrow> (None, w2))
           | None \<Rightarrow>
               (Some (HyRequireError
                        (''Could not require name '' @ mangle h (fst na) @ '' from ''
                           @ module_str h (mod_name (modules w1 src))
                               (mod_file (modules w1 src)))),
                w1)))"

text \<open>The copying loop over an explicit list of assignments.\<close>

fun require_names ::
  "host \<Rightarrow> comp_id option \<Rightarrow> mod_id \<Rightarrow> dest \<Rightarrow> string \<Rightarrow> (string \<times> string) list \<Rightarrow> world
     \<Rightarrow> (pyexc + bool) \<times> world" where
  "require_names h compiler src target_macros prefix [] w = (Inr True, w)"
| "require_names h compiler src target_macros prefix (na # rest) w =
     (case require_one h compiler src target_macros prefix na w of
        (Some e, w') \<Rightarrow> (Inl e, w')
      | (None, w') \<Rightarrow> require_names h compiler src target_macros prefix rest w')"

text \<open>
  The copying loop over the generator
  \<^verbatim>\<open>((k, k) for k in source_macros.keys() if assignments == "ALL" or k in source_exports)\<close>.
  The keys are read while the loop stores: each step of the dict iterator first compares
  the size of the source table with its size \<open>n\<close> at the start and raises
  \<^verbatim>\<open>RuntimeError\<close> when it differs; \<open>ks\<close> are the keys still to come.
\<close>

fun require_keys ::
  "host \<Rightarrow> comp_id option \<Rightarrow> mod_id \<Rightarrow> dest \<Rightarrow> string \<Rightarrow> bool \<Rightarrow> string list \<Rightarrow> nat
     \<Rightarrow> string list \<Rightarrow> world \<Rightarrow> (pyexc + bool) \<times> world" where
  "require_keys h compiler src target_macros prefix all source_exports n [] w =
     (if length (module_table w src) \<noteq> n
      then (Inl (PyExc RuntimeError ''dictionary changed size during iteration''), w)
      else (Inr True, w))"
| "require_keys h compiler src target_macros prefix all source_exports n (k # ks) w =
     (if length (module_table w src) \<noteq> n
      then (Inl (PyExc RuntimeError ''dictionary changed size during iteration''), w)
      else if all \<or> k \<in> set source_exports then
        (case require_one h compiler src target_macros prefix (k, k) w of
           (Some e, w') \<Rightarrow> (Inl e, w')
         | (None, w') \<Rightarrow>
             require_keys h compiler src target_macros prefix all source_exports n ks w')
      else require_keys h compiler src target_macros prefix all source_exports n ks w)"

text \<open>The \<^verbatim>\<open>assignments\<close> argument: \<^verbatim>\<open>"ALL"\<close>, \<^verbatim>\<open>"EXPORTS"\<close> or a list of pairs.\<close>

datatype assignments = Assign_ALL | Assign_EXPORTS | Names "(string \<times> string) list"

text \<open>Lines 214-218: the declared export list, or every key that does not start with an underscore.\<close>

definition source_exports_of :: "world \<Rightarrow> mod_id \<Rightarrow> string list" where
  "source_exports_of w src =
     (case hy_export_macros (modules w src) of
        Some l \<Rightarrow> l
      | None \<Rightarrow>
          filter (\<lambda>k. case k of [] \<Rightarrow> True | c # cs \<Rightarrow> c \<noteq> CHR ''_'')
            (map fst (module_table w src)))"

text \<open>
  Line 239: \<^verbatim>\<open>target_macros\<close> is the table of the target namespace when
  \<^verbatim>\<open>target_module\<close> is true, else \<^verbatim>\<open>target\<close> itself (a dict, or \<^verbatim>\<open>None\<close>).
\<close>

definition target_macros_of :: "(module_ref \<times> mod_id) option \<Rightarrow> target \<Rightarrow> dest" where
  "target_macros_of derived target =
     (case derived of
        None \<Rightarrow> (case target of TDict d \<Rightarrow> DDict d | _ \<Rightarrow> DNone)
      | Some (target_module, target_namespace) \<Rightarrow>
          (if truthy target_module then DModule target_namespace
           else (case target of TDict d \<Rightarrow> DDict d | _ \<Rightarrow> DNone)))"

text \<open>Lines 239-264: the target table, the prefix, the copying loop.\<close>

definition require_copy ::
  "host \<Rightarrow> comp_id option \<Rightarrow> mod_id \<Rightarrow> (module_ref \<times> mod_id) option \<Rightarrow> target \<Rightarrow> assignments
     \<Rightarrow> string \<Rightarrow> world \<Rightarrow> (pyexc + bool) \<times> world" where
  "require_copy h compiler src derived target assignments prefix w =
     (case (case target_macros_of derived target of
              DModule target_namespace \<Rightarrow>
                (DModule target_namespace, setdefault_hy_macros target_namespace w)
            | target_macros \<Rightarrow> (target_macros, w)) of
        (target_macros, w1) \<Rightarrow>
          (case assignments of
             Names names \<Rightarrow>
               require_names h compiler src target_macros
                 (if prefix \<noteq> [] then prefix @ ''.'' else prefix) names w1
           | _ \<Rightarrow>
               require_keys h compiler src target_macros
                 (if prefix \<noteq> [] then prefix @ ''.'' else prefix)
                 (assignments = Assign_ALL) (source_exports_of w src)
                 (length (module_table w1 src)) (map fst (module_table w1 src)) w1))"

text \<open>\<^verbatim>\<open>target_module or target\<close>, the target of the recursive call.\<close>

definition submodule_target :: "(module_ref \<times> mod_id) option \<Rightarrow> target \<Rightarrow> target" where
  "submodule_target derived target =
     (case derived of
        None \<Rightarrow> target
      | Some (target_module, target_namespace) \<Rightarrow>
          (case target_module of
             ModObj m \<Rightarrow> TModule m
           | ModName n \<Rightarrow> if n \<noteq> [] then TStr n else target
           | NameOf m n \<Rightarrow> if n \<noteq> [] then TStr n else target))"

text \<open>
  The error raised in place of a \<^verbatim>\<open>HyRequireError\<close> of the recursive call (lines
  232-236). The message formats \<^verbatim>\<open>source_module.__file__\<close>: a path as it is,
  \<^verbatim>\<open>None\<close> as the text \<^verbatim>\<open>None\<close>; reading the attribute of a module that has none
  raises \<^verbatim>\<open>AttributeError\<close>.
\<close>

definition cannot_import :: "world \<Rightarrow> mod_id \<Rightarrow> string \<Rightarrow> pyexc" where
  "cannot_import w src name =
     (case mod_file (modules w src) of
        No_file \<Rightarrow>
          PyExc AttributeError
            (''module '' @ [CHR 0x27] @ mod_name (modules w src) @ [CHR 0x27]
               @ '' has no attribute '' @ [CHR 0x27] @ ''__file__'' @ [CHR 0x27])
      | File_None \<Rightarrow>
          HyRequireError
            (''Cannot import name '' @ [CHR 0x27] @ name @ [CHR 0x27] @ '' from '' @ [CHR 0x27]
               @ mod_name (modules w src) @ [CHR 0x27] @ '' (None)'')
      | File f \<Rightarrow>
          HyRequireError
            (''Cannot import name '' @ [CHR 0x27] @ name @ [CHR 0x27] @ '' from '' @ [CHR 0x27]
               @ mod_name (modules w src) @ [CHR 0x27] @ '' ('' @ f @ '')''))"

fun is_HyRequireError :: "pyexc \<Rightarrow> bool" where
  "is_HyRequireError (HyRequireError msg) = True"
| "is_HyRequireError e = False"

text \<open>
  \<^verbatim>\<open>require(source_module, target, assignments, prefix, target_module_name, compiler)\<close>
  called from \<open>frame\<close>, and the loop of lines 223-236 over the names of a source module
  without macros. The recursive call is made from \<^verbatim>\<open>hy.macros\<close> itself.
\<close>

function
  require ::
    "host \<Rightarrow> module_ref \<Rightarrow> target \<Rightarrow> assignments \<Rightarrow> string \<Rightarrow> string option \<Rightarrow> comp_id option
       \<Rightarrow> mod_id \<Rightarrow> world \<Rightarrow> (pyexc + bool) \<times> world"
  and require_submodules ::
    "host \<Rightarrow> mod_id \<Rightarrow> target \<Rightarrow> (string \<times> string) list \<Rightarrow> world \<Rightarrow> (pyexc + bool) \<times> world"
where
  "require h source_module target assignments prefix target_module_name compiler frame w =
     (case require_entry h w source_module target target_module_name frame of
        Inl e \<Rightarrow> (Inl e, w)
      | Inr None \<Rightarrow> (Inr False, w)
      | Inr (Some (src, derived)) \<Rightarrow>
          (if module_table (setdefault_hy_macros src w) src = [] then
             (case assignments of
                Names names \<Rightarrow>
                  require_submodules h src (submodule_target derived target) names
                    (setdefault_hy_macros src w)
              | _ \<Rightarrow> (Inr False, setdefault_hy_macros src w))
           else require_copy h compiler src derived target assignments prefix
                  (setdefault_hy_macros src w)))"
| "require_submodules h src target [] w = (Inr True, w)"
| "require_submodules h src target (na # rest) w =
     (case require h (ModName (mod_name (modules w src) @ ''.'' @ mangle h (fst na))) target
             Assign_ALL (snd na) None None (hy_macros_module h) w of
        (Inl e, w') \<Rightarrow>
          (if is_HyRequireError e then (Inl (cannot_import w' src (fst na)), w')
           else (Inl e, w'))
      | (Inr b, w') \<Rightarrow> require_submodules h src target rest w')"
  by pat_completeness auto
termination
  by (relation "measure (\<lambda>x. case x of
          Inl (h, source_module, target, assignments, rest) \<Rightarrow>
            (case assignments of Names names \<Rightarrow> length names + 2 | _ \<Rightarrow> 0)
        | Inr (h, src, target, names, w) \<Rightarrow> length names + 1)") auto

declare require.simps [simp del]

section \<open>The specification's words\<close>

text \<open>
  A head is dot-headed when it is an \<^verbatim>\<open>Expression\<close> that begins with the symbol
  \<^verbatim>\<open>.\<close>; the tables a name is looked up in, in the order the specification gives:
  the compiler's scope stack from the innermost table outwards (when a compiler is
  supplied), the module's own table, the table of \<^verbatim>\<open>builtins\<close>.
\<close>

fun dot_headed :: "hy_obj \<Rightarrow> bool" where
  "dot_headed (Expression (x # xs)) = (x = Symbol ''.'')"
| "dot_headed x = False"

fun is_Symbol :: "hy_obj \<Rightarrow> bool" where
  "is_Symbol (Symbol s) = True"
| "is_Symbol x = False"

definition resolution_order :: "host \<Rightarrow> world \<Rightarrow> comp_id option \<Rightarrow> mod_id \<Rightarrow> macro_table list" where
  "resolution_order h w compiler m =
     (case compiler of None \<Rightarrow> [] | Some c \<Rightarrow> rev (local_state_stack (compilers w c)))
     @ [module_table w m, module_table w (builtins h)]"

text \<open>
  The tree and the world at the head of the loop after \<open>n\<close> passes that each ended with a
  new tree; \<open>None\<close> when the loop is left earlier.
\<close>

fun after_steps ::
  "host \<Rightarrow> mod_id \<Rightarrow> comp_id option \<Rightarrow> bool \<Rightarrow> nat \<Rightarrow> hy_obj \<Rightarrow> world \<Rightarrow> (hy_obj \<times> world) option" where
  "after_steps h module compiler result_ok 0 tree w = Some (tree, w)"
| "after_steps h module compiler result_ok (Suc n) tree w =
     (case macroexpand_step h module compiler result_ok tree w of
        (Continue tree', w') \<Rightarrow> after_steps h module compiler result_ok n tree' w'
      | (s, w') \<Rightarrow> None)"

text \<open>
  What the loop is left with after a pass that ended with \<open>sw\<close>; \<open>None\<close> when the loop
  goes on.
\<close>

definition loop_exit :: "bool \<Rightarrow> step \<times> world \<Rightarrow> (step \<times> world) option" where
  "loop_exit once sw =
     (case sw of
        (Continue tree', w') \<Rightarrow> if once then Some (Halt tree', w') else None
      | (s, w') \<Rightarrow> Some (s, w'))"


text \<open>
  A tree with no macro call at its root: not an \<^verbatim>\<open>Expression\<close>, or an empty one, or
  its head is neither a \<^verbatim>\<open>Symbol\<close> nor dot-headed, or no table binds its head name.
\<close>

fun no_macro_call :: "host \<Rightarrow> world \<Rightarrow> comp_id option \<Rightarrow> mod_id \<Rightarrow> hy_obj \<Rightarrow> bool" where
  "no_macro_call h w compiler m (Expression []) = True"
| "no_macro_call h w compiler m (Expression (fn0 # args)) =
     ((\<not> is_Symbol fn0 \<and> \<not> dot_headed fn0) \<or>
      (case head_name h fn0 of
         None \<Rightarrow> False
       | Some fn \<Rightarrow> \<forall>t \<in> set (resolution_order h w compiler m). map_of t fn = None))"
| "no_macro_call h w compiler m x = True"





text \<open>
  The same in one pass, also for a target table that is the source table itself (\<open>same\<close>:
  source and target are one module that the call did not recognise as such; each name is
  then looked up in the table as it is at that moment): the first missing name, if any, and
  the target table when the loop is left.
\<close>

fun bind_names ::
  "host \<Rightarrow> bool \<Rightarrow> macro_table \<Rightarrow> string \<Rightarrow> (string \<times> string) list \<Rightarrow> macro_table
     \<Rightarrow> string option \<times> macro_table" where
  "bind_names h same st prefix [] t = (None, t)"
| "bind_names h same st prefix (na # rest) t =
     (case map_of (if same then t else st) (mangle h (fst na)) of
        None \<Rightarrow> (Some (fst na), t)
      | Some v \<Rightarrow> bind_names h same st prefix rest (dict_set (mangle h (prefix @ snd na)) v t))"

text \<open>
  The identity in the file system of a module's own file, when the module has a
  \<^verbatim>\<open>__file__\<close> and the file exists.
\<close>

definition module_file_id :: "host \<Rightarrow> world \<Rightarrow> mod_id \<Rightarrow> nat option" where
  "module_file_id h w m =
     (case mod_file (modules w m) of
        File f \<Rightarrow> (case stat_id h f of Inr i \<Rightarrow> Some i | Inl e \<Rightarrow> None)
      | _ \<Rightarrow> None)"


section \<open>A concrete host and world\<close>

text \<open>
  The instances below are evaluated at: \<^verbatim>\<open>builtins\<close> (module 0); a module
  \<^verbatim>\<open>pkg.user\<close> (2) with macros \<^verbatim>\<open>double\<close>, \<^verbatim>\<open>boom\<close>, \<^verbatim>\<open>lang\<close>,
  \<^verbatim>\<open>final\<close> and \<^verbatim>\<open>twice\<close>; a module \<^verbatim>\<open>pkg.macros\<close> (3) and the module
  \<^verbatim>\<open>__main__\<close> (4) run from the same file; a package \<^verbatim>\<open>pkg\<close> (5), a
  namespace package \<^verbatim>\<open>ns\<close> (7) and the built-in module \<^verbatim>\<open>sys\<close> (8), all three
  without macros; \<^verbatim>\<open>hy.macros\<close> (every other module). Compiler 0 has two local scopes, every other
  compiler none.
\<close>

definition ex_mangle :: "string \<Rightarrow> string" where
  "ex_mangle s = map (\<lambda>c. if c = CHR ''-'' then CHR ''_'' else c) s"

definition ex_as_model :: "hy_obj \<Rightarrow> pyexc + hy_obj" where
  "ex_as_model x = (case x of PyValue s \<Rightarrow> Inr (Literal s) | _ \<Rightarrow> Inr x)"

definition ex_run_macro ::
  "macro_id \<Rightarrow> comp_id option \<Rightarrow> hy_obj list \<Rightarrow> world \<Rightarrow> (pyexc + hy_obj) \<times> world" where
  "ex_run_macro m compiler args w =
     (if m = 10 then
        (case args of
           [x] \<Rightarrow> (Inr (Expression [Symbol ''*'', x, x]), w)
         | _ \<Rightarrow> (Inl (PyExc TypeError ''double() takes 1 argument''), w))
      else if m = 11 then (Inl (PyExc ValueError ''boom''), w)
      else if m = 12 then (Inl (HyLanguageError ''HySyntaxError'' ''bad form''), w)
      else if m = 13 then (Inr (Result ''ast''), w)
      else if m = 14 then (Inr (Expression (Symbol ''double'' # args)), w)
      else (Inr (Literal ''None''), w))"

definition ex_import_module :: "string \<Rightarrow> string option \<Rightarrow> pyexc + mod_id" where
  "ex_import_module n package =
     (if n = ''pkg.user'' then Inr 2
      else if n = ''pkg.macros'' then Inr 3
      else if n = ''__main__'' then Inr 4
      else if n = ''pkg'' then Inr 5
      else if n = ''ns'' then Inr 7
      else if n = ''sys'' then Inr 8
      else Inl (PyExc ModuleNotFoundError (''No module named '' @ n)))"

definition ex_find_spec :: "string \<Rightarrow> (exc_class \<times> string) + module_spec option" where
  "ex_find_spec n =
     (if n = ''pkg.user'' then
        Inr (Some \<lparr>source_file_loader = True, loader_filename = ''/pkg/user.hy''\<rparr>)
      else if n = ''pkg.macros'' then
        Inr (Some \<lparr>source_file_loader = True, loader_filename = ''/pkg/macros.hy''\<rparr>)
      else if n = ''__main__'' then Inl (ValueError, ''__main__.__spec__ is None'')
      else Inr None)"

definition ex_stat_id :: "string \<Rightarrow> (exc_class \<times> string) + nat" where
  "ex_stat_id f =
     (if f = ''/pkg/user.hy'' then Inr 101
      else if f = ''/pkg/macros.hy'' \<or> f = ''/pkg/../pkg/macros.hy'' then Inr 100
      else Inl (FileNotFoundError, f))"

definition ex_host :: host where
  "ex_host =
     \<lparr>mangle = ex_mangle,
      py_str = (\<lambda>x. ''<model>''),
      as_model = ex_as_model,
      replace_hy_obj = (\<lambda>obj tree. ex_as_model obj),
      format_exception_only =
        (\<lambda>e. case e of PyExc c m \<Rightarrow> [''Error: '' @ m @ [CHR 0x0A]] | _ \<Rightarrow> []),
      run_macro = ex_run_macro,
      import_module = ex_import_module,
      find_spec = ex_find_spec,
      stat_id = ex_stat_id,
      module_str = (\<lambda>n f. ''<module '' @ n @ ''>''),
      builtins = 0,
      hy_macros_module = 6\<rparr>"

definition ex_modules :: "mod_id \<Rightarrow> pymodule" where
  "ex_modules m =
     (if m = 0 then
        \<lparr>mod_name = ''builtins'', mod_file = No_file,
         hy_macros = Some [(''double'', 30), (''core'', 31)], hy_export_macros = None\<rparr>
      else if m = 2 then
        \<lparr>mod_name = ''pkg.user'', mod_file = File ''/pkg/user.hy'',
         hy_macros =
           Some [(''double'', 10), (''boom'', 11), (''lang'', 12), (''final'', 13), (''twice'', 14)],
         hy_export_macros = None\<rparr>
      else if m = 3 then
        \<lparr>mod_name = ''pkg.macros'', mod_file = File ''/pkg/macros.hy'',
         hy_macros = Some [(''foo'', 20), (''_helper'', 21)], hy_export_macros = None\<rparr>
      else if m = 4 then
        \<lparr>mod_name = ''__main__'', mod_file = File ''/pkg/../pkg/macros.hy'',
         hy_macros = Some [(''foo'', 20), (''_helper'', 21)], hy_export_macros = None\<rparr>
      else if m = 5 then
        \<lparr>mod_name = ''pkg'', mod_file = File ''/pkg/__init__.hy'',
         hy_macros = None, hy_export_macros = None\<rparr>
      else if m = 7 then
        \<lparr>mod_name = ''ns'', mod_file = File_None, hy_macros = None, hy_export_macros = None\<rparr>
      else if m = 8 then
        \<lparr>mod_name = ''sys'', mod_file = No_file, hy_macros = None, hy_export_macros = None\<rparr>
      else
        \<lparr>mod_name = ''hy.macros'', mod_file = File ''/hy/macros.py'',
         hy_macros = None, hy_export_macros = None\<rparr>)"

definition ex_compiler :: hy_compiler where
  "ex_compiler =
     \<lparr>cmodule = 2, local_state_stack = [[(''double'', 40)], [(''double'', 41), (''inner'', 42)]],
      this = None, filename = Some ''user.hy'', source = Some ''(double 5)'',
      core_shadow_calls = []\<rparr>"

definition ex_world :: world where
  "ex_world =
     \<lparr>modules = ex_modules,
      dicts = (\<lambda>d. []),
      compilers = (\<lambda>c. if c = 0 then ex_compiler else ex_compiler\<lparr>local_state_stack := []\<rparr>)\<rparr>"

section \<open>The concrete host and world, field by field\<close>

lemma ex_host_sel:
  "mangle ex_host = ex_mangle"
  "py_str ex_host = (\<lambda>x. ''<model>'')"
  "as_model ex_host = ex_as_model"
  "replace_hy_obj ex_host = (\<lambda>obj tree. ex_as_model obj)"
  "format_exception_only ex_host (PyExc c msg) = [''Error: '' @ msg @ [CHR 0x0A]]"
  "run_macro ex_host = ex_run_macro"
  "import_module ex_host = ex_import_module"
  "find_spec ex_host = ex_find_spec"
  "stat_id ex_host = ex_stat_id"
  "module_str ex_host n f = ''<module '' @ n @ ''>''"
  "builtins ex_host = 0"
  "hy_macros_module ex_host = 6"
  by (simp_all add: ex_host_def)

lemma ex_world_sel:
  "modules ex_world = ex_modules"
  "dicts ex_world = (\<lambda>d. [])"
  "compilers ex_world 0 = ex_compiler"
  "c \<noteq> 0 \<Longrightarrow> compilers ex_world c = ex_compiler\<lparr>local_state_stack := []\<rparr>"
  by (simp_all add: ex_world_def)

section \<open>Name resolution\<close>

lemma first_with_append:
  "first_with fn (xs @ ys) =
     (case first_with fn xs of Some m \<Rightarrow> Some m | None \<Rightarrow> first_with fn ys)"
  by (induction xs) (auto split: option.splits)

lemma first_with_None: "(\<forall>t \<in> set ds. map_of t fn = None) \<Longrightarrow> first_with fn ds = None"
  by (induction ds) (auto split: option.splits)


lemma find_macro_order:
  "find_macro h w compiler m fn = first_with fn (resolution_order h w compiler m)"
  by (cases compiler)
     (simp_all add: find_macro_def resolution_order_def first_with_append split: option.splits)

section \<open>The expansion loop\<close>

lemma head_name_None: "\<not> is_Symbol fn0 \<Longrightarrow> \<not> dot_headed fn0 \<Longrightarrow> head_name h fn0 = None"
  by (cases fn0 rule: dot_headed.cases) (simp_all add: head_name_def)

lemma step_no_macro_call:
  "no_macro_call h w compiler m tree \<Longrightarrow>
   macroexpand_step h m compiler result_ok tree w = (Halt tree, w)"
  by (cases "(h, w, compiler, m, tree)" rule: no_macro_call.cases)
     (auto simp: macroexpand_step_def head_name_None find_macro_order
           dest: first_with_None split: option.splits)

lemma loop_halt:
  "macroexpand_step h m compiler result_ok tree w = (Halt t, w') \<Longrightarrow>
   macroexpand_loop h m compiler once result_ok tree w = Some (Halt t, w')"
  by (subst macroexpand_loop.simps) simp

lemma loop_continue:
  "macroexpand_step h m compiler result_ok tree w = (Continue t, w') \<Longrightarrow>
   macroexpand_loop h m compiler False result_ok tree w
     = macroexpand_loop h m compiler False result_ok t w'"
  by (subst macroexpand_loop.simps) simp

lemma loop_once:
  "macroexpand_step h m compiler result_ok tree w = (Continue t, w') \<Longrightarrow>
   macroexpand_loop h m compiler True result_ok tree w = Some (Halt t, w')"
  by (subst macroexpand_loop.simps) simp

lemma loop_return:
  "macroexpand_step h m compiler result_ok tree w = (Return obj, w') \<Longrightarrow>
   macroexpand_loop h m compiler once result_ok tree w = Some (Return obj, w')"
  by (subst macroexpand_loop.simps) simp

lemma loop_raise:
  "macroexpand_step h m compiler result_ok tree w = (Raise e, w') \<Longrightarrow>
   macroexpand_loop h m compiler once result_ok tree w = Some (Raise e, w')"
  by (subst macroexpand_loop.simps) simp

lemma loop_after_steps:
  "after_steps h m compiler result_ok n tree w = Some (t, w1) \<Longrightarrow> n = 0 \<or> \<not> once \<Longrightarrow>
   macroexpand_loop h m compiler once result_ok tree w
     = macroexpand_loop h m compiler once result_ok t w1"
proof (induction n arbitrary: tree w)
  case 0
  then show ?case by simp
next
  case (Suc n)
  from Suc.prems(2) have once: "once = False" by simp
  obtain s w' where step: "macroexpand_step h m compiler result_ok tree w = (s, w')"
    by (cases "macroexpand_step h m compiler result_ok tree w")
  with Suc.prems(1) obtain t' where s: "s = Continue t'"
    and rest: "after_steps h m compiler result_ok n t' w' = Some (t, w1)"
    by (cases s) auto
  from step s have "macroexpand_loop h m compiler once result_ok tree w
      = macroexpand_loop h m compiler once result_ok t' w'"
    unfolding once by (simp add: loop_continue)
  also have "\<dots> = macroexpand_loop h m compiler once result_ok t w1"
    using Suc.IH[OF rest] once by simp
  finally show ?case .
qed

lemma body_after_steps:
  "after_steps h m compiler result_ok n tree w = Some (t, w1) \<Longrightarrow> n = 0 \<or> \<not> once \<Longrightarrow>
   macroexpand_body h m compiler once result_ok tree w
     = macroexpand_body h m compiler once result_ok t w1"
  by (simp add: macroexpand_body_def loop_after_steps)

lemma macroexpand_after_steps:
  "module_of h module = Inr m \<Longrightarrow> compiler_module_ok w compiler m \<Longrightarrow>
   after_steps h m compiler result_ok n tree w = Some (t, w1) \<Longrightarrow> n = 0 \<or> \<not> once \<Longrightarrow>
   macroexpand h tree module compiler once result_ok w
     = macroexpand_body h m compiler once result_ok t w1"
  by (simp add: macroexpand_def body_after_steps)

lemma step_found:
  "head_name h fn0 = Some fn \<Longrightarrow> find_macro h w compiler m fn = Some mac \<Longrightarrow>
   macroexpand_step h m compiler result_ok (Expression (fn0 # args)) w
     = invoke_macro h mac compiler result_ok (Expression (fn0 # args)) w"
  by (simp add: macroexpand_step_def)


lemma invoke_raise:
  "run_macro h mac compiler args
      (case compiler of None \<Rightarrow> w | Some c \<Rightarrow> set_this c (Expression (fn0 # args)) w) = (Inl e, w')
   \<Longrightarrow> invoke_macro h mac compiler result_ok (Expression (fn0 # args)) w
        = (Raise (MacroExceptions_exit h w' (Expression (fn0 # args)) compiler e), w')"
  by (simp add: invoke_macro_def)

lemma invoke_result:
  "run_macro h mac compiler args
      (case compiler of None \<Rightarrow> w | Some c \<Rightarrow> set_this c (Expression (fn0 # args)) w) = (Inr obj, w')
   \<Longrightarrow> is_result obj
   \<Longrightarrow> invoke_macro h mac compiler result_ok (Expression (fn0 # args)) w
        = (Return (if result_ok then obj else Expression (fn0 # args)), w')"
  by (simp add: invoke_macro_def)



lemma loop_finite:
  assumes "macroexpand_loop h m compiler once result_ok tree w = Some y"
  shows "\<exists>n t w1. after_steps h m compiler result_ok n tree w = Some (t, w1) \<and> (n = 0 \<or> \<not> once)
           \<and> loop_exit once (macroexpand_step h m compiler result_ok t w1) = Some y"
proof (rule macroexpand_loop.raw_induct[where P = "\<lambda>h m compiler once result_ok tree w y.
    \<exists>n t w1. after_steps h m compiler result_ok n tree w = Some (t, w1) \<and> (n = 0 \<or> \<not> once)
      \<and> loop_exit once (macroexpand_step h m compiler result_ok t w1) = Some y", OF _ assms],
    goal_cases)
  case (1 loop h m compiler once result_ok tree w y)
  obtain s w' where step: "macroexpand_step h m compiler result_ok tree w = (s, w')"
    by (cases "macroexpand_step h m compiler result_ok tree w")
  show ?case
  proof (cases "loop_exit once (s, w')")
    case (Some z)
    with 1(2) step have "z = y"
      by (auto simp: loop_exit_def split: step.splits if_splits)
    with Some step have "after_steps h m compiler result_ok 0 tree w = Some (tree, w)
        \<and> loop_exit once (macroexpand_step h m compiler result_ok tree w) = Some y"
      by simp
    then show ?thesis by blast
  next
    case None
    then obtain t' where s: "s = Continue t'" and once: "\<not> once"
      by (auto simp: loop_exit_def split: step.splits if_splits)
    with 1(2) step have "loop h m compiler once result_ok t' w' = Some y"
      by simp
    from 1(1)[OF this] obtain n t w1 where
      n: "after_steps h m compiler result_ok n t' w' = Some (t, w1)"
      and e: "loop_exit once (macroexpand_step h m compiler result_ok t w1) = Some y"
      by blast
    from n step s have "after_steps h m compiler result_ok (Suc n) tree w = Some (t, w1)"
      by simp
    with e once show ?thesis by blast
  qed
qed


lemma step_return:
  "macroexpand_step h m compiler result_ok tree w = (Return v, w') \<Longrightarrow>
   (result_ok \<and> is_result v) \<or> (\<not> result_ok \<and> (\<exists>fn0 args. v = Expression (fn0 # args)))"
  by (auto simp: macroexpand_step_def invoke_macro_def
           split: hy_obj.splits list.splits option.splits prod.splits sum.splits if_splits)

lemma loop_exit_Return:
  "loop_exit once sw = Some (Return v, w') \<Longrightarrow> sw = (Return v, w')"
  by (auto simp: loop_exit_def split: prod.splits step.splits if_splits)

lemma join_dot_mem:
  assumes "2 \<le> length ys"
  shows "CHR ''.'' \<in> set (join ''.'' ys)"
proof -
  from assms obtain x y zs where "ys = x # y # zs"
    by (cases ys; cases "tl ys") auto
  then show ?thesis by simp
qed

section \<open>What the loop does to the compiler\<close>



















section \<open>The claims about expansion\<close>

text \<open>
  C6. A tree with no macro call at its root (the root is not an Expression, or is an empty
  Expression, or its head is neither a Symbol nor a dot-headed Expression, or its head
  name is bound in no table) comes back from \<^verbatim>\<open>macroexpand\<close> unchanged up to the final
  \<^verbatim>\<open>as_model\<close>: the call returns \<^verbatim>\<open>as_model(tree)\<close> and changes nothing, whatever
  \<^verbatim>\<open>once\<close> and \<^verbatim>\<open>result_ok\<close> are. The module argument is a module or imports to
  one, and the compiler, if any, is that module's (the function's assertion).
\<close>

theorem macroexpand_no_macro_call:
  assumes "module_of h module = Inr m"
    and "compiler_module_ok w compiler m"
    and "no_macro_call h w compiler m tree"
  shows "macroexpand h tree module compiler once result_ok w = Some (as_model h tree, w)"
  using assms
  by (simp add: macroexpand_def macroexpand_body_def loop_halt[OF step_no_macro_call])

theorem macroexpand_no_macro_call_witness:
  "macroexpand ex_host (Expression [Symbol ''*'', Literal ''5'', Literal ''5''])
      (ModName ''pkg.user'') (Some 0) False True ex_world
     = Some (Inr (Expression [Symbol ''*'', Literal ''5'', Literal ''5'']), ex_world)"
proof -
  have m: "module_of ex_host (ModName ''pkg.user'') = Inr 2"
    by (simp add: module_of_def ex_host_sel ex_import_module_def)
  have c: "compiler_module_ok ex_world (Some 0) 2"
    by (simp add: compiler_module_ok_def ex_world_sel ex_compiler_def)
  have n: "no_macro_call ex_host ex_world (Some 0) 2
             (Expression [Symbol ''*'', Literal ''5'', Literal ''5''])"
    by (simp add: head_name_def resolution_order_def module_table_def ex_host_sel
          ex_world_sel ex_modules_def ex_compiler_def ex_mangle_def)
  have a: "as_model ex_host (Expression [Symbol ''*'', Literal ''5'', Literal ''5''])
             = Inr (Expression [Symbol ''*'', Literal ''5'', Literal ''5''])"
    by (simp add: ex_host_sel ex_as_model_def)
  show ?thesis
    using macroexpand_no_macro_call[OF m c n, of False True] by (simp only: a)
qed




text \<open>
  C2. When the macro body invoked on some pass of the loop raises: a language error
  (a subclass of \<^verbatim>\<open>HyLanguageError\<close>) leaves \<^verbatim>\<open>macroexpand\<close> as it is; any other
  exception leaves it as a \<^verbatim>\<open>HyMacroExpansionError\<close> whose message is
  \<^verbatim>\<open>expanding macro <head-text>\<close>, a newline and two blanks, then the lines of the
  original exception's own description, and which carries the call form and, when a
  compiler was supplied, the compiler's filename and source (else \<^verbatim>\<open>None\<close>).
\<close>

theorem macro_exception_wrapping:
  assumes "module_of h module = Inr m"
    and "compiler_module_ok w compiler m"
    and "after_steps h m compiler result_ok n tree w = Some (Expression (fn0 # args), w1)"
    and "n = 0 \<or> \<not> once"
    and "head_name h fn0 = Some fn"
    and "find_macro h w1 compiler m fn = Some mac"
    and "run_macro h mac compiler args
           (case compiler of None \<Rightarrow> w1 | Some c \<Rightarrow> set_this c (Expression (fn0 # args)) w1)
         = (Inl e, w2)"
  shows "macroexpand h tree module compiler once result_ok w =
           Some (Inl (if is_language_error e then e
                      else HyMacroExpansionError
                             (''expanding macro '' @ str_of h fn0 @ [CHR 0x0A] @ ''  ''
                                @ join ''  '' (format_exception_only h e))
                             (Expression (fn0 # args))
                             (case compiler of None \<Rightarrow> None | Some c \<Rightarrow> filename (compilers w2 c))
                             (case compiler of None \<Rightarrow> None | Some c \<Rightarrow> source (compilers w2 c))),
                 w2)"
proof -
  have "macroexpand_step h m compiler result_ok (Expression (fn0 # args)) w1
          = (Raise (MacroExceptions_exit h w2 (Expression (fn0 # args)) compiler e), w2)"
    using assms(5-7) by (simp add: step_found invoke_raise)
  then have "macroexpand_body h m compiler once result_ok (Expression (fn0 # args)) w1
          = Some (Inl (MacroExceptions_exit h w2 (Expression (fn0 # args)) compiler e), w2)"
    by (simp add: macroexpand_body_def loop_raise)
  then show ?thesis
    using macroexpand_after_steps[OF assms(1-4)] by (simp add: MacroExceptions_exit_def)
qed

theorem macro_exception_wrapping_witness:
  "macroexpand ex_host (Expression [Symbol ''boom'', Literal ''1'']) (ModObj 2) (Some 2) False True
      ex_world
     = Some (Inl (HyMacroExpansionError
                    (''expanding macro boom'' @ [CHR 0x0A] @ ''  Error: boom'' @ [CHR 0x0A])
                    (Expression [Symbol ''boom'', Literal ''1''])
                    (Some ''user.hy'') (Some ''(double 5)'')),
             set_this 2 (Expression [Symbol ''boom'', Literal ''1'']) ex_world)
   \<and> macroexpand ex_host (Expression [Symbol ''lang'']) (ModObj 2) None False True ex_world
     = Some (Inl (HyLanguageError ''HySyntaxError'' ''bad form''), ex_world)"
proof -
  have m: "module_of ex_host (ModObj 2) = Inr 2"
    by (simp add: module_of_def)
  have ok: "compiler_module_ok ex_world (Some 2) 2" "compiler_module_ok ex_world None 2"
    by (simp_all add: compiler_module_ok_def ex_world_sel ex_compiler_def)
  have hb: "head_name ex_host (Symbol ''boom'') = Some ''boom''"
    and hl: "head_name ex_host (Symbol ''lang'') = Some ''lang''"
    by (simp_all add: head_name_def ex_host_sel ex_mangle_def)
  have fb: "find_macro ex_host ex_world (Some 2) 2 ''boom'' = Some 11"
    and fl: "find_macro ex_host ex_world None 2 ''lang'' = Some 12"
    by (simp_all add: find_macro_def module_table_def ex_host_sel ex_world_sel ex_modules_def
          ex_compiler_def)
  have rb: "run_macro ex_host 11 (Some 2) [Literal ''1'']
              (case Some 2 of None \<Rightarrow> ex_world
               | Some c \<Rightarrow> set_this c (Expression [Symbol ''boom'', Literal ''1'']) ex_world)
            = (Inl (PyExc ValueError ''boom''),
               set_this 2 (Expression [Symbol ''boom'', Literal ''1'']) ex_world)"
    by (simp add: ex_host_sel ex_run_macro_def)
  have rl: "run_macro ex_host 12 None []
              (case None of None \<Rightarrow> ex_world
               | Some c \<Rightarrow> set_this c (Expression [Symbol ''lang'']) ex_world)
            = (Inl (HyLanguageError ''HySyntaxError'' ''bad form''), ex_world)"
    by (simp add: ex_host_sel ex_run_macro_def)
  have s: "str_of ex_host (Symbol ''boom'') = ''boom''"
    by (simp add: str_of_def)
  have f: "filename (compilers (set_this 2 (Expression [Symbol ''boom'', Literal ''1'']) ex_world) 2)
             = Some ''user.hy''"
    "source (compilers (set_this 2 (Expression [Symbol ''boom'', Literal ''1'']) ex_world) 2)
             = Some ''(double 5)''"
    by (simp_all add: set_this_def ex_world_sel ex_compiler_def)
  have "macroexpand ex_host (Expression [Symbol ''boom'', Literal ''1'']) (ModObj 2) (Some 2) False True
      ex_world
     = Some (Inl (HyMacroExpansionError
                    (''expanding macro boom'' @ [CHR 0x0A] @ ''  Error: boom'' @ [CHR 0x0A])
                    (Expression [Symbol ''boom'', Literal ''1''])
                    (Some ''user.hy'') (Some ''(double 5)'')),
             set_this 2 (Expression [Symbol ''boom'', Literal ''1'']) ex_world)"
    using macro_exception_wrapping[OF m ok(1) _ _ hb fb rb, of True 0 _ False]
    by (simp add: s f ex_host_sel)
  moreover have "macroexpand ex_host (Expression [Symbol ''lang'']) (ModObj 2) None False True ex_world
     = Some (Inl (HyLanguageError ''HySyntaxError'' ''bad form''), ex_world)"
    using macro_exception_wrapping[OF m ok(2) _ _ hl fl rl, of True 0 _ False]
    by simp
  ultimately show ?thesis by blast
qed


text \<open>
  C5. When the macro invoked on some pass of the loop returns a compiled-result sentinel
  (a compiler \<^verbatim>\<open>Result\<close> or an \<^verbatim>\<open>AST\<close>), \<^verbatim>\<open>macroexpand\<close> returns that sentinel
  at once if \<^verbatim>\<open>result_ok\<close>, and otherwise the tree as it was before this expansion,
  without another pass and without \<^verbatim>\<open>as_model\<close>. On every other way out of the loop
  (the tree at the head of the loop is no macro call, or a single step was asked for) the
  value returned is \<^verbatim>\<open>as_model\<close> of the final tree; so every value \<^verbatim>\<open>macroexpand\<close>
  returns is either normalised, or a sentinel (\<^verbatim>\<open>result_ok\<close>), or the call form whose
  macro returned a sentinel (not \<^verbatim>\<open>result_ok\<close>).
\<close>

theorem result_sentinel_and_normalisation:
  assumes "module_of h module = Inr m" and "compiler_module_ok w compiler m"
  shows "(\<forall>n fn0 args w1 fn mac obj w2.
            after_steps h m compiler result_ok n tree w = Some (Expression (fn0 # args), w1)
            \<and> (n = 0 \<or> \<not> once)
            \<and> head_name h fn0 = Some fn \<and> find_macro h w1 compiler m fn = Some mac
            \<and> run_macro h mac compiler args
                 (case compiler of None \<Rightarrow> w1
                  | Some c \<Rightarrow> set_this c (Expression (fn0 # args)) w1) = (Inr obj, w2)
            \<and> is_result obj
          \<longrightarrow> macroexpand h tree module compiler once result_ok w
                = Some (Inr (if result_ok then obj else Expression (fn0 # args)), w2))
       \<and> (\<forall>n t w1.
            after_steps h m compiler result_ok n tree w = Some (t, w1) \<and> (n = 0 \<or> \<not> once)
            \<and> no_macro_call h w1 compiler m t
          \<longrightarrow> macroexpand h tree module compiler once result_ok w = Some (as_model h t, w1))
       \<and> (\<forall>t' w2.
            once \<and> macroexpand_step h m compiler result_ok tree w = (Continue t', w2)
          \<longrightarrow> macroexpand h tree module compiler once result_ok w = Some (as_model h t', w2))
       \<and> (\<forall>v w'.
            macroexpand h tree module compiler once result_ok w = Some (Inr v, w')
          \<longrightarrow> (\<exists>t. as_model h t = Inr v) \<or> (result_ok \<and> is_result v)
              \<or> (\<not> result_ok \<and> (\<exists>fn0 args. v = Expression (fn0 # args))))"
proof (intro conjI allI impI)
  fix n fn0 args w1 fn mac obj w2
  assume a: "after_steps h m compiler result_ok n tree w = Some (Expression (fn0 # args), w1)
            \<and> (n = 0 \<or> \<not> once)
            \<and> head_name h fn0 = Some fn \<and> find_macro h w1 compiler m fn = Some mac
            \<and> run_macro h mac compiler args
                 (case compiler of None \<Rightarrow> w1
                  | Some c \<Rightarrow> set_this c (Expression (fn0 # args)) w1) = (Inr obj, w2)
            \<and> is_result obj"
  then have "macroexpand_step h m compiler result_ok (Expression (fn0 # args)) w1
      = (Return (if result_ok then obj else Expression (fn0 # args)), w2)"
    by (simp add: step_found invoke_result)
  then have "macroexpand_body h m compiler once result_ok (Expression (fn0 # args)) w1
      = Some (Inr (if result_ok then obj else Expression (fn0 # args)), w2)"
    by (simp add: macroexpand_body_def loop_return)
  with a show "macroexpand h tree module compiler once result_ok w
      = Some (Inr (if result_ok then obj else Expression (fn0 # args)), w2)"
    using macroexpand_after_steps[OF assms, of result_ok n tree "Expression (fn0 # args)" w1 once]
    by simp
next
  fix n t w1
  assume a: "after_steps h m compiler result_ok n tree w = Some (t, w1) \<and> (n = 0 \<or> \<not> once)
            \<and> no_macro_call h w1 compiler m t"
  then have "macroexpand_body h m compiler once result_ok t w1 = Some (as_model h t, w1)"
    by (simp add: macroexpand_body_def loop_halt[OF step_no_macro_call])
  with a show "macroexpand h tree module compiler once result_ok w = Some (as_model h t, w1)"
    using macroexpand_after_steps[OF assms, of result_ok n tree t w1 once] by simp
next
  fix t' w2
  assume "once \<and> macroexpand_step h m compiler result_ok tree w = (Continue t', w2)"
  then show "macroexpand h tree module compiler once result_ok w = Some (as_model h t', w2)"
    using assms by (simp add: macroexpand_def macroexpand_body_def loop_once)
next
  fix v w'
  assume "macroexpand h tree module compiler once result_ok w = Some (Inr v, w')"
  with assms have body: "macroexpand_body h m compiler once result_ok tree w = Some (Inr v, w')"
    by (simp add: macroexpand_def)
  then obtain s where loop: "macroexpand_loop h m compiler once result_ok tree w = Some (s, w')"
    by (auto simp: macroexpand_body_def split: option.splits prod.splits step.splits)
  show "(\<exists>t. as_model h t = Inr v) \<or> (result_ok \<and> is_result v)
          \<or> (\<not> result_ok \<and> (\<exists>fn0 args. v = Expression (fn0 # args)))"
  proof (cases s)
    case (Halt t)
    with body loop have "as_model h t = Inr v" by (simp add: macroexpand_body_def)
    then show ?thesis by blast
  next
    case (Return obj)
    with body loop have v: "obj = v" by (simp add: macroexpand_body_def)
    from loop_finite[OF loop] Return v obtain t w1 where
      "macroexpand_step h m compiler result_ok t w1 = (Return v, w')"
      by (auto dest: loop_exit_Return)
    from step_return[OF this] show ?thesis by blast
  next
    case (Raise e)
    with body loop show ?thesis by (simp add: macroexpand_body_def)
  next
    case (Continue t)
    with body loop have "as_model h t = Inr v" by (simp add: macroexpand_body_def)
    then show ?thesis by blast
  qed
qed

theorem result_sentinel_and_normalisation_witness:
  "macroexpand ex_host (Expression [Symbol ''final'']) (ModObj 2) None False True ex_world
     = Some (Inr (Result ''ast''), ex_world)
   \<and> macroexpand ex_host (Expression [Symbol ''final'']) (ModObj 2) None False False ex_world
     = Some (Inr (Expression [Symbol ''final'']), ex_world)
   \<and> macroexpand ex_host (Expression [Symbol ''twice'', PyValue ''5'']) (ModObj 2) None True True
        ex_world
     = Some (Inr (Expression [Symbol ''double'', PyValue ''5'']), ex_world)
   \<and> macroexpand ex_host (PyValue ''5'') (ModObj 2) None False True ex_world
     = Some (Inr (Literal ''5''), ex_world)"
proof -
  have m: "module_of ex_host (ModObj 2) = Inr 2"
    by (simp add: module_of_def)
  have ok: "compiler_module_ok ex_world None 2"
    by (simp add: compiler_module_ok_def)
  have hf: "head_name ex_host (Symbol ''final'') = Some ''final''"
    by (simp add: head_name_def ex_host_sel ex_mangle_def)
  have ff: "find_macro ex_host ex_world None 2 ''final'' = Some 13"
    by (simp add: find_macro_def module_table_def ex_host_sel ex_world_sel ex_modules_def)
  have rf: "run_macro ex_host 13 None [] ex_world = (Inr (Result ''ast''), ex_world)"
    by (simp add: ex_host_sel ex_run_macro_def)
  have st: "macroexpand_step ex_host 2 None True (Expression [Symbol ''twice'', PyValue ''5'']) ex_world
      = (Continue (Expression [Symbol ''double'', PyValue ''5'']), ex_world)"
    by (simp add: macroexpand_step_def invoke_macro_def head_name_def find_macro_def
          module_table_def ex_host_sel ex_world_sel ex_modules_def ex_mangle_def ex_run_macro_def
          ex_as_model_def)
  have am: "as_model ex_host (Expression [Symbol ''double'', PyValue ''5''])
      = Inr (Expression [Symbol ''double'', PyValue ''5''])"
    "as_model ex_host (PyValue ''5'') = Inr (Literal ''5'')"
    by (simp_all add: ex_host_sel ex_as_model_def)
  have "macroexpand ex_host (Expression [Symbol ''final'']) (ModObj 2) None False True ex_world
     = Some (Inr (Result ''ast''), ex_world)"
    using result_sentinel_and_normalisation[OF m ok, where result_ok = True and once = False
        and tree = "Expression [Symbol ''final'']", THEN conjunct1, rule_format,
        of 0 "Symbol ''final''" "[]" ex_world "''final''" 13 "Result ''ast''" ex_world]
    by (simp add: hf ff rf)
  moreover have "macroexpand ex_host (Expression [Symbol ''final'']) (ModObj 2) None False False ex_world
     = Some (Inr (Expression [Symbol ''final'']), ex_world)"
    using result_sentinel_and_normalisation[OF m ok, where result_ok = False and once = False
        and tree = "Expression [Symbol ''final'']", THEN conjunct1, rule_format,
        of 0 "Symbol ''final''" "[]" ex_world "''final''" 13 "Result ''ast''" ex_world]
    by (simp add: hf ff rf)
  moreover have "macroexpand ex_host (Expression [Symbol ''twice'', PyValue ''5'']) (ModObj 2) None True True
        ex_world
     = Some (Inr (Expression [Symbol ''double'', PyValue ''5'']), ex_world)"
    using result_sentinel_and_normalisation[OF m ok, where result_ok = True and once = True
        and tree = "Expression [Symbol ''twice'', PyValue ''5'']",
        THEN conjunct2, THEN conjunct2, THEN conjunct1, rule_format,
        of "Expression [Symbol ''double'', PyValue ''5'']" ex_world]
    by (simp add: st am)
  moreover have "macroexpand ex_host (PyValue ''5'') (ModObj 2) None False True ex_world
     = Some (Inr (Literal ''5''), ex_world)"
    using result_sentinel_and_normalisation[OF m ok, where result_ok = True and once = False
        and tree = "PyValue ''5''", THEN conjunct2, THEN conjunct1, rule_format,
        of 0 "PyValue ''5''" ex_world]
    by (simp add: am)
  ultimately show ?thesis by blast
qed


text \<open>
  C7, as amended. A call form whose head is an Expression beginning with the symbol
  \<^verbatim>\<open>.\<close> is resolved by the name obtained by mangling each remaining component and
  joining them with \<^verbatim>\<open>"."\<close> (a head \<^verbatim>\<open>(. a b c)\<close> looks up \<^verbatim>\<open>"a.b.c"\<close>). With two
  or more components that key contains a dot and so differs from the key of every plain
  symbol whose mangled name contains none; a head with one component, \<^verbatim>\<open>(. a)\<close>, is
  looked up under the very key of the plain symbol \<^verbatim>\<open>a\<close>.
\<close>

theorem dotted_head_name:
  "head_name h (Expression (Symbol ''.'' # xs))
     = Some (join ''.'' (map (\<lambda>y. mangle h (str_of h y)) xs))
   \<and> macroexpand_step h m compiler result_ok (Expression (Expression (Symbol ''.'' # xs) # args)) w
     = (case find_macro h w compiler m (join ''.'' (map (\<lambda>y. mangle h (str_of h y)) xs)) of
          None \<Rightarrow> (Halt (Expression (Expression (Symbol ''.'' # xs) # args)), w)
        | Some mac \<Rightarrow>
            invoke_macro h mac compiler result_ok
              (Expression (Expression (Symbol ''.'' # xs) # args)) w)
   \<and> (2 \<le> length xs \<longrightarrow>
        (\<forall>s. CHR ''.'' \<notin> set (mangle h s) \<longrightarrow>
           head_name h (Expression (Symbol ''.'' # xs)) \<noteq> head_name h (Symbol s)))
   \<and> head_name h (Expression [Symbol ''.'', Symbol a]) = head_name h (Symbol a)"
proof (intro conjI impI allI)
  show k: "head_name h (Expression (Symbol ''.'' # xs))
     = Some (join ''.'' (map (\<lambda>y. mangle h (str_of h y)) xs))"
    by (simp add: head_name_def)
  show "macroexpand_step h m compiler result_ok (Expression (Expression (Symbol ''.'' # xs) # args)) w
     = (case find_macro h w compiler m (join ''.'' (map (\<lambda>y. mangle h (str_of h y)) xs)) of
          None \<Rightarrow> (Halt (Expression (Expression (Symbol ''.'' # xs) # args)), w)
        | Some mac \<Rightarrow>
            invoke_macro h mac compiler result_ok
              (Expression (Expression (Symbol ''.'' # xs) # args)) w)"
    by (simp add: macroexpand_step_def k)
  show "head_name h (Expression [Symbol ''.'', Symbol a]) = head_name h (Symbol a)"
    by (simp add: head_name_def str_of_def)
next
  fix s
  assume len: "2 \<le> length xs" and nodot: "CHR ''.'' \<notin> set (mangle h s)"
  from len have "CHR ''.'' \<in> set (join ''.'' (map (\<lambda>y. mangle h (str_of h y)) xs))"
    by (intro join_dot_mem) simp
  with nodot have "join ''.'' (map (\<lambda>y. mangle h (str_of h y)) xs) \<noteq> mangle h s"
    by auto
  then show "head_name h (Expression (Symbol ''.'' # xs)) \<noteq> head_name h (Symbol s)"
    by (simp add: head_name_def)
qed

theorem dotted_head_name_witness:
  "head_name ex_host (Expression [Symbol ''.'', Symbol ''a'', Symbol ''b-c'', Symbol ''d''])
     = Some ''a.b_c.d''
   \<and> head_name ex_host (Expression [Symbol ''.'', Symbol ''a'', Symbol ''b-c'', Symbol ''d''])
     \<noteq> head_name ex_host (Symbol ''a'')"
proof -
  have nodot: "CHR ''.'' \<notin> set (mangle ex_host ''a'')"
    by (simp add: ex_host_sel ex_mangle_def)
  have "head_name ex_host (Expression [Symbol ''.'', Symbol ''a'', Symbol ''b-c'', Symbol ''d''])
     = Some ''a.b_c.d''"
    using dotted_head_name[where h = ex_host and xs = "[Symbol ''a'', Symbol ''b-c'', Symbol ''d'']",
        THEN conjunct1]
    by (simp add: str_of_def ex_host_sel ex_mangle_def)
  moreover have "head_name ex_host (Expression [Symbol ''.'', Symbol ''a'', Symbol ''b-c'', Symbol ''d''])
     \<noteq> head_name ex_host (Symbol ''a'')"
    using dotted_head_name[where h = ex_host and xs = "[Symbol ''a'', Symbol ''b-c'', Symbol ''d'']",
        THEN conjunct2, THEN conjunct2, THEN conjunct1, rule_format, of "''a''"] nodot
    by simp
  ultimately show ?thesis by blast
qed


text \<open>
  C7 as stated fails: the head \<^verbatim>\<open>(. double)\<close> and the plain symbol \<^verbatim>\<open>double\<close> are
  looked up under the same key, and the same macro expands both call forms.
\<close>

theorem dotted_head_same_key_counterexample:
  "head_name ex_host (Expression [Symbol ''.'', Symbol ''double'']) = Some ''double''
   \<and> head_name ex_host (Symbol ''double'') = Some ''double''
   \<and> macroexpand_step ex_host 2 None True
        (Expression [Expression [Symbol ''.'', Symbol ''double''], Literal ''5'']) ex_world
     = (Continue (Expression [Symbol ''*'', Literal ''5'', Literal ''5'']), ex_world)
   \<and> macroexpand_step ex_host 2 None True
        (Expression [Symbol ''double'', Literal ''5'']) ex_world
     = (Continue (Expression [Symbol ''*'', Literal ''5'', Literal ''5'']), ex_world)"
  by (simp add: macroexpand_step_def invoke_macro_def head_name_def find_macro_def str_of_def
        module_table_def ex_host_sel ex_world_sel ex_modules_def ex_mangle_def ex_run_macro_def
        ex_as_model_def)






section \<open>The claims about require\<close>




lemma require_entry_module_source:
  "require_entry h w (ModObj s) (TDict d) tmn frame = Inr (Some (s, None))"
  "same_modules h w (ModObj s) (ModObj t) = Inr False \<Longrightarrow>
   require_entry h w (ModObj s) (TModule t) tmn frame = Inr (Some (s, Some (ModObj t, t)))"
  by (simp_all add: require_entry_def derive_target_module_def)


lemma module_table_setdefault [simp]:
  "module_table (setdefault_hy_macros m w) m' = module_table w m'"
  by (auto simp: module_table_def setdefault_hy_macros_def split: option.splits)

lemma setdefault_nonempty: "module_table w s \<noteq> [] \<Longrightarrow> setdefault_hy_macros s w = w"
  by (auto simp: module_table_def setdefault_hy_macros_def split: option.splits)

lemma setdefault_name_file [simp]:
  "mod_name (modules (setdefault_hy_macros t w) s) = mod_name (modules w s)"
  "mod_file (modules (setdefault_hy_macros t w) s) = mod_file (modules w s)"
  by (auto simp: setdefault_hy_macros_def split: option.splits)

lemma dest_table_setdefault [simp]:
  "dest_table (setdefault_hy_macros m w) dst = dest_table w dst"
  by (cases dst) (auto simp: dest_table_def module_table_def setdefault_hy_macros_def split: option.splits)

lemma require_one_found:
  assumes "map_of (module_table w s) (mangle h (fst na)) = Some v"
    and "dst \<noteq> DNone"
  shows "\<exists>w2. require_one h compiler s dst prefix na w = (None, w2)
           \<and> dest_table w2 dst = dict_set (mangle h (prefix @ snd na)) v (dest_table w dst)
           \<and> mod_name (modules w2 s) = mod_name (modules w s)
           \<and> mod_file (modules w2 s) = mod_file (modules w s)
           \<and> (dst \<noteq> DModule s \<longrightarrow> module_table w2 s = module_table w s)"
  using assms
  by (cases dst; cases compiler)
     (auto simp: require_one_def dest_set_def dest_table_def module_table_def
        warn_on_core_shadow_def)

lemma require_one_missing:
  assumes "map_of (module_table w s) (mangle h (fst na)) = None"
  shows "\<exists>w1. require_one h compiler s dst prefix na w =
           (Some (HyRequireError (''Could not require name '' @ mangle h (fst na) @ '' from ''
                    @ module_str h (mod_name (modules w s)) (mod_file (modules w s)))), w1)
           \<and> dest_table w1 dst = dest_table w dst"
  using assms
  by (cases dst; cases compiler)
     (auto simp: require_one_def dest_table_def module_table_def warn_on_core_shadow_def)

lemma bind_names_same_source:
  "bind_names h True st prefix names t = bind_names h True st' prefix names t"
  by (induction names arbitrary: t) (auto split: option.splits)

lemma require_names_bind:
  assumes "dst \<noteq> DNone"
  shows "fst (require_names h compiler s dst prefix names w) =
           (case fst (bind_names h (dst = DModule s) (module_table w s) prefix names
                        (dest_table w dst)) of
              None \<Rightarrow> Inr True
            | Some name \<Rightarrow>
                Inl (HyRequireError (''Could not require name '' @ mangle h name @ '' from ''
                       @ module_str h (mod_name (modules w s)) (mod_file (modules w s)))))
         \<and> dest_table (snd (require_names h compiler s dst prefix names w)) dst
             = snd (bind_names h (dst = DModule s) (module_table w s) prefix names
                      (dest_table w dst))"
proof (induction names arbitrary: w)
  case Nil
  then show ?case by simp
next
  case (Cons na rest)
  have look: "(if dst = DModule s then dest_table w dst else module_table w s) = module_table w s"
    by (auto simp: dest_table_def)
  show ?case
  proof (cases "map_of (module_table w s) (mangle h (fst na))")
    case None
    from require_one_missing[OF None, of compiler dst prefix] show ?thesis
      using None by (auto simp: look)
  next
    case (Some v)
    from require_one_found[OF Some assms, of compiler prefix] obtain w2 where
      one: "require_one h compiler s dst prefix na w = (None, w2)"
      and tbl: "dest_table w2 dst = dict_set (mangle h (prefix @ snd na)) v (dest_table w dst)"
      and nm: "mod_name (modules w2 s) = mod_name (modules w s)"
      and fl: "mod_file (modules w2 s) = mod_file (modules w s)"
      and src: "dst \<noteq> DModule s \<longrightarrow> module_table w2 s = module_table w s"
      by blast
    have b: "bind_names h (dst = DModule s) (module_table w2 s) prefix rest (dest_table w2 dst)
           = bind_names h (dst = DModule s) (module_table w s) prefix rest
               (dict_set (mangle h (prefix @ snd na)) v (dest_table w dst))"
    proof (cases "dst = DModule s")
      case True
      then show ?thesis
        using tbl bind_names_same_source[of h "module_table w2 s" prefix rest _ "module_table w s"]
        by simp
    next
      case False
      with src show ?thesis by (simp add: tbl)
    qed
    note IH = Cons.IH[of w2, unfolded b nm fl]
    from IH one Some show ?thesis
      by (simp add: look)
  qed
qed


lemma require_reaches_copy:
  assumes "require_entry h w source_module target target_module_name frame = Inr (Some (s, derived))"
    and "module_table w s \<noteq> []"
  shows "require h source_module target (Names names) prefix target_module_name compiler frame w
           = require_names h compiler s (target_macros_of derived target)
               (if prefix \<noteq> [] then prefix @ ''.'' else prefix) names
               (case target_macros_of derived target of
                  DModule ns \<Rightarrow> setdefault_hy_macros ns w
                | _ \<Rightarrow> w)"
  using assms
  by (simp add: require.simps require_copy_def setdefault_nonempty split: dest.splits)


lemma copy_world:
  "module_table (case d of DModule ns \<Rightarrow> setdefault_hy_macros ns w | _ \<Rightarrow> w) s = module_table w s"
  "dest_table (case d of DModule ns \<Rightarrow> setdefault_hy_macros ns w | _ \<Rightarrow> w) dst = dest_table w dst"
  "mod_name (modules (case d of DModule ns \<Rightarrow> setdefault_hy_macros ns w | _ \<Rightarrow> w) s)
     = mod_name (modules w s)"
  "mod_file (modules (case d of DModule ns \<Rightarrow> setdefault_hy_macros ns w | _ \<Rightarrow> w) s)
     = mod_file (modules w s)"
  by (cases d; simp)+

lemmas require_eval =
  require.simps require_entry_def derive_target_module_def same_modules_def get_filename_def
  samefile_def caught_by_same_modules_def import_module_from_string_def package_module_of_def
  setdefault_hy_macros_def module_table_def require_copy_def source_exports_of_def
  require_one_def dest_set_def target_macros_of_def

lemmas ex_eval =
  ex_host_sel ex_world_sel ex_modules_def ex_stat_id_def ex_find_spec_def ex_import_module_def
  ex_mangle_def

lemma ex_tables:
  "module_table ex_world 2
     = [(''double'', 10), (''boom'', 11), (''lang'', 12), (''final'', 13), (''twice'', 14)]"
  "module_table ex_world 3 = [(''foo'', 20), (''_helper'', 21)]"
  "module_table ex_world 4 = [(''foo'', 20), (''_helper'', 21)]"
  "module_table ex_world 5 = []"
  "module_table ex_world 7 = []"
  by (simp_all add: module_table_def ex_world_sel ex_modules_def)

lemma ex_file_ids:
  "module_file_id ex_host ex_world 3 = Some 100"
  "module_file_id ex_host ex_world 4 = Some 100"
  by (simp_all add: module_file_id_def ex_eval)

lemma ex_entries:
  "require_entry ex_host ex_world (ModObj 3) (TModule 2) None 2
     = Inr (Some (3, Some (ModObj 2, 2)))"
  "require_entry ex_host ex_world (ModName ''pkg.macros'') TNone None 2
     = Inr (Some (3, Some (NameOf 2 ''pkg.user'', 2)))"
  "require_entry ex_host ex_world (ModObj 4) TNone None 4
     = Inr (Some (4, Some (NameOf 4 ''__main__'', 4)))"
  "require_entry ex_host ex_world (ModObj 3) TNone None 4
     = Inr (Some (3, Some (NameOf 4 ''__main__'', 4)))"
  "require_entry ex_host ex_world (ModObj 5) (TModule 2) None 2
     = Inr (Some (5, Some (ModObj 2, 2)))"
  "require_entry ex_host ex_world (ModObj 7) (TModule 2) None 2
     = Inr (Some (7, Some (ModObj 2, 2)))"
  by (simp_all add: require_eval ex_eval)





text \<open>
  C4, as amended. Take a call of \<^verbatim>\<open>require\<close> with an explicit list of assignments
  that gets as far as the copying loop: it is not recognised as a self-require (such a
  call returns \<^verbatim>\<open>False\<close> whatever the list), nothing is raised before the source
  module \<open>s\<close> is there, the source table is not empty, and there is a target table (the
  dict, or the table of the target module; a \<^verbatim>\<open>None\<close> target from a caller whose
  \<^verbatim>\<open>__name__\<close> is empty has none). Then either every requested name is found in the
  source table, each is bound under its mangled, prefixed alias, and the call returns
  \<^verbatim>\<open>True\<close>; or it raises a require error naming the first missing name and the source
  module. There is no rollback: when it raises, the names requested before the first
  missing one are bound in the target table already, and no later one is. When the target
  table is the source table itself, a name is looked up in the table as the earlier
  stores have left it.
\<close>

theorem require_binds_until_first_missing:
  assumes "require_entry h w source_module target target_module_name frame = Inr (Some (s, derived))"
    and "module_table w s \<noteq> []"
    and "target_macros_of derived target \<noteq> DNone"
  shows "fst (require h source_module target (Names names) prefix target_module_name compiler
                frame w) =
           (case fst (bind_names h (target_macros_of derived target = DModule s) (module_table w s)
                        (if prefix \<noteq> [] then prefix @ ''.'' else prefix) names
                        (dest_table w (target_macros_of derived target))) of
              None \<Rightarrow> Inr True
            | Some name \<Rightarrow>
                Inl (HyRequireError (''Could not require name '' @ mangle h name @ '' from ''
                       @ module_str h (mod_name (modules w s)) (mod_file (modules w s)))))
         \<and> dest_table (snd (require h source_module target (Names names) prefix target_module_name
                                compiler frame w)) (target_macros_of derived target)
             = snd (bind_names h (target_macros_of derived target = DModule s) (module_table w s)
                      (if prefix \<noteq> [] then prefix @ ''.'' else prefix) names
                      (dest_table w (target_macros_of derived target)))"
  using require_names_bind[OF assms(3), of h compiler s
      "if prefix \<noteq> [] then prefix @ ''.'' else prefix" names
      "case target_macros_of derived target of
         DModule ns \<Rightarrow> setdefault_hy_macros ns w | _ \<Rightarrow> w"]
  unfolding require_reaches_copy[OF assms(1,2)] copy_world
  by simp


theorem require_binds_until_first_missing_witness:
  "fst (require ex_host (ModName ''pkg.macros'') TNone (Names [(''foo'', ''bar'')]) ''m'' None
          None 2 ex_world)
     = Inr True
   \<and> module_table
        (snd (require ex_host (ModName ''pkg.macros'') TNone (Names [(''foo'', ''bar'')]) ''m''
                None None 2 ex_world)) 2
     = [(''double'', 10), (''boom'', 11), (''lang'', 12), (''final'', 13), (''twice'', 14),
        (''m.bar'', 20)]
   \<and> fst (require ex_host (ModObj 3) (TModule 2) (Names [(''_helper'', ''h''), (''nope'', ''n'')]) []
            None None 2 ex_world)
     = Inl (HyRequireError ''Could not require name nope from <module pkg.macros>'')
   \<and> module_table
        (snd (require ex_host (ModObj 3) (TModule 2) (Names [(''_helper'', ''h''), (''nope'', ''n'')]) []
                None None 2 ex_world)) 2
     = [(''double'', 10), (''boom'', 11), (''lang'', 12), (''final'', 13), (''twice'', 14),
        (''h'', 21)]
   \<and> fst (require ex_host (ModObj 4) TNone (Names [(''foo'', ''bar''), (''bar'', ''baz'')]) []
            None None 4 ex_world)
     = Inr True
   \<and> module_table
        (snd (require ex_host (ModObj 4) TNone (Names [(''foo'', ''bar''), (''bar'', ''baz'')]) []
                None None 4 ex_world)) 4
     = [(''foo'', 20), (''_helper'', 21), (''bar'', 20), (''baz'', 20)]"
proof -
  have ne: "module_table ex_world 3 \<noteq> []" "module_table ex_world 4 \<noteq> []"
    by (simp_all add: ex_tables)
  have tm: "target_macros_of (Some (NameOf 2 ''pkg.user'', 2)) TNone = DModule 2"
    "target_macros_of (Some (ModObj 2, 2)) (TModule 2) = DModule 2"
    "target_macros_of (Some (NameOf 4 ''__main__'', 4)) TNone = DModule 4"
    by (simp_all add: target_macros_of_def)
  have dn: "target_macros_of (Some (NameOf 2 ''pkg.user'', 2)) TNone \<noteq> DNone"
    "target_macros_of (Some (ModObj 2, 2)) (TModule 2) \<noteq> DNone"
    "target_macros_of (Some (NameOf 4 ''__main__'', 4)) TNone \<noteq> DNone"
    by (simp_all add: tm)
  show ?thesis
    using require_binds_until_first_missing[OF ex_entries(2) ne(1) dn(1),
        of "[(''foo'', ''bar'')]" "''m''" None]
      require_binds_until_first_missing[OF ex_entries(1) ne(1) dn(2),
        of "[(''_helper'', ''h''), (''nope'', ''n'')]" "[]" None]
      require_binds_until_first_missing[OF ex_entries(3) ne(2) dn(3),
        of "[(''foo'', ''bar''), (''bar'', ''baz'')]" "[]" None]
    by (simp add: tm dest_table_def ex_tables ex_host_sel ex_world_sel ex_modules_def ex_mangle_def)
qed

text \<open>
  C4 as stated fails: requiring \<^verbatim>\<open>foo\<close> and \<^verbatim>\<open>missing\<close> from \<^verbatim>\<open>pkg.macros\<close>
  into \<^verbatim>\<open>pkg.user\<close> raises the require error for \<^verbatim>\<open>missing\<close>, and the target
  table has gained \<^verbatim>\<open>foo\<close>.
\<close>

theorem require_partial_transfer_counterexample:
  "fst (require ex_host (ModObj 3) (TModule 2) (Names [(''foo'', ''foo''), (''missing'', ''missing'')])
          [] None None 2 ex_world)
     = Inl (HyRequireError ''Could not require name missing from <module pkg.macros>'')
   \<and> module_table ex_world 2
     = [(''double'', 10), (''boom'', 11), (''lang'', 12), (''final'', 13), (''twice'', 14)]
   \<and> module_table
        (snd (require ex_host (ModObj 3) (TModule 2)
                (Names [(''foo'', ''foo''), (''missing'', ''missing'')]) [] None None 2 ex_world)) 2
     = [(''double'', 10), (''boom'', 11), (''lang'', 12), (''final'', 13), (''twice'', 14),
        (''foo'', 20)]"
  by (simp add: require_eval ex_eval)












text \<open>
  A source module without macros that has no \<^verbatim>\<open>__file__\<close> attribute at all, as a
  built-in module: formatting the message of line 235 reads the attribute, and the
  \<^verbatim>\<open>AttributeError\<close> of that leaves \<^verbatim>\<open>require\<close> in place of the require error.
\<close>

lemma ex_source_without_file:
  "require ex_host (ModObj 8) (TModule 2) (Names [(''foo'', ''f'')]) [] None None 2 ex_world
     = (Inl (PyExc AttributeError
               (''module '' @ [CHR 0x27] @ ''sys'' @ [CHR 0x27] @ '' has no attribute ''
                  @ [CHR 0x27] @ ''__file__'' @ [CHR 0x27])),
        setdefault_hy_macros 8 ex_world)"
  by (simp add: require_eval submodule_target_def cannot_import_def ex_eval)




end
